theory Spec2Isabelle
  imports Complex_Main
begin

section \<open>Numbers\<close>

text \<open>
  Every number of the JavaScript sources is an IEEE double. Where a property turns on an
  inequality with room to spare (the pricing model, the risk manager, the dispatch of the
  parts) the embedding reads the numbers as real numbers: \<open>+\<close>, \<open>*\<close>, \<open>/\<close>, \<open>Math.log\<close>,
  \<open>Math.sqrt\<close>, \<open>Math.tanh\<close>, \<open>Math.exp\<close>, \<open>Math.max\<close> and \<open>Math.min\<close> are the exact
  operations, without rounding, \<open>NaN\<close> or infinities. Where a property is an equality
  between computed numbers (the sizes and times of an execution plan) every arithmetic
  operation and every decimal literal is followed by the rounding \<open>fl\<close> below. A field that
  the source may find \<open>undefined\<close> is an \<open>option\<close>. Wall-clock reads (\<open>Date.now()\<close>,
  \<open>new Date().toDateString()\<close>) are arguments of the functions that make them.
\<close>

text \<open>
  Rounding to the nearest double, ties to the even significand: a double other than \<open>0\<close>
  is an integer of 53 bits times a power of two, so a real \<open>x\<close> with
  \<open>2\<^sup>E \<le> |x| < 2\<^sup>E\<^sup>+\<^sup>1\<close> is rounded to a multiple of \<open>2\<^sup>E\<^sup>-\<^sup>5\<^sup>2\<close>. The range of the exponent is
  not bounded: overflow to infinity and the subnormal numbers below \<open>2\<^sup>-\<^sup>1\<^sup>0\<^sup>2\<^sup>2\<close> are left out,
  order sizes and millisecond times being far from both.
\<close>

definition round_even :: "real \<Rightarrow> int" where
  "round_even y =
     (let f = \<lfloor>y\<rfloor>; r = y - of_int f
      in if r < 1 / 2 then f
         else if 1 / 2 < r then f + 1
         else if even f then f else f + 1)"

definition ulp_exp :: "real \<Rightarrow> int" where
  "ulp_exp x = \<lfloor>log 2 \<bar>x\<bar>\<rfloor> - 52"

definition fl :: "real \<Rightarrow> real" where
  "fl x =
     (if x = 0 then 0
      else of_int (round_even (x / 2 powr of_int (ulp_exp x))) * 2 powr of_int (ulp_exp x))"

text \<open>
  \<open>x || d\<close> on an optional number: \<open>undefined\<close> and \<open>0\<close> are falsy, so both give
  the default.
\<close>

definition js_or :: "real option \<Rightarrow> real \<Rightarrow> real" where
  "js_or x d = (case x of None \<Rightarrow> d | Some v \<Rightarrow> if v = 0 then d else v)"

section \<open>The Avellaneda-Stoikov model (models/AvellanedaStoikovModel.js)\<close>

record price_point =
  price :: real
  timestamp :: real

record model_params =
  p_gamma :: "real option"
  p_sigma :: "real option"
  p_T :: "real option"
  p_k :: "real option"
  p_A :: "real option"

text \<open>The fields \<open>this.\<gamma>\<close> and \<open>this.\<sigma>\<close> of the class are \<open>gamma\<close> and \<open>sigma\<close>.\<close>

record as_model =
  gamma :: real
  sigma :: real
  T :: real
  k :: real
  A :: real
  q :: real
  q_target :: real
  S :: real
  t :: real
  priceHistory :: "price_point list"

definition AvellanedaStoikovModel :: "model_params \<Rightarrow> as_model" where
  "AvellanedaStoikovModel params =
     \<lparr> gamma = js_or (p_gamma params) 0.1,
       sigma = js_or (p_sigma params) 0.2,
       T = js_or (p_T params) 1.0,
       k = js_or (p_k params) 1.5,
       A = js_or (p_A params) 100,
       q = 0,
       q_target = 0,
       S = 0,
       t = 0,
       priceHistory = [] \<rparr>"

record quote =
  bidPrice :: real
  askPrice :: real
  reservationPrice :: real
  spread :: real
  bidIntensity :: real
  askIntensity :: real
  inventoryAdjustment :: real

definition calculateReservationPrice :: "as_model \<Rightarrow> real \<Rightarrow> real \<Rightarrow> real \<Rightarrow> real" where
  "calculateReservationPrice m S0 q0 t0 =
     (let timeToMaturity = T m - t0;
          inventoryPenalty = (gamma m * (sigma m)\<^sup>2 * timeToMaturity * q0) / 2;
          reservationPrice = S0 - inventoryPenalty
      in reservationPrice)"

definition calculateOptimalSpread :: "as_model \<Rightarrow> real \<Rightarrow> real" where
  "calculateOptimalSpread m t0 =
     (let timeToMaturity = T m - t0;
          riskComponent = (gamma m * (sigma m)\<^sup>2 * timeToMaturity) / 2;
          liquidityComponent = (2 / gamma m) * ln (1 + gamma m / k m);
          halfSpread = riskComponent + liquidityComponent
      in halfSpread * 2)"

definition calculateArrivalIntensities :: "as_model \<Rightarrow> real \<Rightarrow> real \<Rightarrow> real \<times> real" where
  "calculateArrivalIntensities m bidSpread askSpread =
     (A m * exp (- k m * bidSpread), A m * exp (- k m * askSpread))"

definition calculateInventoryAdjustment :: "as_model \<Rightarrow> real \<Rightarrow> real" where
  "calculateInventoryAdjustment m q0 =
     (let inventoryImbalance = q0 - q_target m;
          maxAdjustment = sigma m * 0.1;
          adjustment = tanh (inventoryImbalance * 2) * maxAdjustment
      in adjustment)"

definition calculateOptimalQuotes :: "as_model \<Rightarrow> real \<Rightarrow> real \<Rightarrow> real \<Rightarrow> quote" where
  "calculateOptimalQuotes m S0 q0 t0 =
     (let r = calculateReservationPrice m S0 q0 t0;
          optimalSpread = calculateOptimalSpread m t0;
          halfSpread = optimalSpread / 2;
          inventoryAdjustment = calculateInventoryAdjustment m q0;
          bidPrice = r - halfSpread - inventoryAdjustment;
          askPrice = r + halfSpread + inventoryAdjustment;
          bidSpread = S0 - bidPrice;
          askSpread = askPrice - S0;
          intensities = calculateArrivalIntensities m bidSpread askSpread
      in \<lparr> bidPrice = max bidPrice (S0 * 0.95),
           askPrice = min askPrice (S0 * 1.05),
           reservationPrice = r,
           spread = optimalSpread,
           bidIntensity = fst intensities,
           askIntensity = snd intensities,
           inventoryAdjustment = inventoryAdjustment \<rparr>)"

subsection \<open>Volatility estimation\<close>





section \<open>The standalone calculator (calculator.js)\<close>

record calc_config =
  RISK_AVERSION :: real
  VOLATILITY :: real
  TIME_HORIZON :: real
  TICK_SIZE :: real

record calculator =
  c_gamma :: real
  c_sigma :: real
  c_T :: real
  tickSize :: real

record calc_inventory =
  ethBalance :: real
  usdtBalance :: real
  targetBalance :: real

record calc_quote =
  cq_reservationPrice :: real
  optimalSpread :: real
  cq_bidPrice :: real
  cq_askPrice :: real
  midPrice :: real

definition AvellanedaStoikovCalculator :: "calc_config \<Rightarrow> calculator" where
  "AvellanedaStoikovCalculator config =
     \<lparr> c_gamma = RISK_AVERSION config,
       c_sigma = VOLATILITY config,
       c_T = TIME_HORIZON config,
       tickSize = TICK_SIZE config \<rparr>"

text \<open>The configuration object at the head of the file.\<close>

definition config :: calc_config where
  "config = \<lparr> RISK_AVERSION = 0.1, VOLATILITY = 0.2, TIME_HORIZON = 1.0, TICK_SIZE = 0.01 \<rparr>"

definition calc_calculateReservationPrice ::
  "calculator \<Rightarrow> real \<Rightarrow> calc_inventory \<Rightarrow> real option \<Rightarrow> real" where
  "calc_calculateReservationPrice c currentPrice inventory timeRemaining =
     (let S0 = currentPrice;
          q0 = ethBalance inventory - targetBalance inventory;
          t_remaining = js_or timeRemaining (c_T c);
          reservationPrice = S0 - (c_gamma c * (c_sigma c)\<^sup>2 * t_remaining * q0) / 2
      in reservationPrice)"

text \<open>
  \<open>arrivalIntensity = 1.5\<close> is a default parameter: it applies when the argument is
  omitted, not when it is \<open>0\<close>.
\<close>

definition calc_calculateOptimalSpread :: "calculator \<Rightarrow> real option \<Rightarrow> real option \<Rightarrow> real" where
  "calc_calculateOptimalSpread c timeRemaining arrivalIntensity =
     (let t_remaining = js_or timeRemaining (c_T c);
          kappa = (case arrivalIntensity of None \<Rightarrow> 1.5 | Some a \<Rightarrow> a);
          spread = c_gamma c * (c_sigma c)\<^sup>2 * t_remaining
                   + (2 / c_gamma c) * ln (1 + c_gamma c / kappa)
      in spread)"

definition calc_calculateOptimalQuotes ::
  "calculator \<Rightarrow> real \<Rightarrow> calc_inventory \<Rightarrow> real option \<Rightarrow> calc_quote" where
  "calc_calculateOptimalQuotes c currentPrice inventory timeRemaining =
     (let reservationPrice = calc_calculateReservationPrice c currentPrice inventory timeRemaining;
          optimalSpread = calc_calculateOptimalSpread c timeRemaining None;
          bidPrice = reservationPrice - optimalSpread / 2;
          askPrice = reservationPrice + optimalSpread / 2
      in \<lparr> cq_reservationPrice = reservationPrice,
           optimalSpread = optimalSpread,
           cq_bidPrice = bidPrice,
           cq_askPrice = askPrice,
           midPrice = (bidPrice + askPrice) / 2 \<rparr>)"

section \<open>The on-chain contract (HFT-Strat/AvellanedaStoikovTWAP.sol)\<close>

text \<open>
  The Solidity contract of the repository has its own \<open>computeQuote\<close>. A \<open>uint256\<close> is a
  natural number below \<open>2\<^sup>2\<^sup>5\<^sup>6\<close>, an \<open>int256\<close> an integer in \<open>[-2\<^sup>2\<^sup>5\<^sup>5, 2\<^sup>2\<^sup>5\<^sup>5)\<close>. Under
  \<open>pragma solidity ^0.8.20\<close> arithmetic is checked: an overflow or underflow reverts with
  \<open>Panic(0x11)\<close>, a division by zero with \<open>Panic(0x12)\<close>, a failed \<open>require\<close> with its
  message. An explicit conversion between \<open>uint256\<close> and \<open>int256\<close> keeps the bits and does
  not revert.
\<close>

datatype sol_error = Revert string | Panic nat

definition and_then :: "sol_error + 'a \<Rightarrow> ('a \<Rightarrow> sol_error + 'b) \<Rightarrow> sol_error + 'b" where
  "and_then r f = (case r of Inl e \<Rightarrow> Inl e | Inr v \<Rightarrow> f v)"

definition uint_mul :: "nat \<Rightarrow> nat \<Rightarrow> sol_error + nat" where
  "uint_mul a b = (if a * b < 2 ^ 256 then Inr (a * b) else Inl (Panic 17))"

definition uint_add :: "nat \<Rightarrow> nat \<Rightarrow> sol_error + nat" where
  "uint_add a b = (if a + b < 2 ^ 256 then Inr (a + b) else Inl (Panic 17))"

definition uint_sub :: "nat \<Rightarrow> nat \<Rightarrow> sol_error + nat" where
  "uint_sub a b = (if b \<le> a then Inr (a - b) else Inl (Panic 17))"

definition uint_div :: "nat \<Rightarrow> nat \<Rightarrow> sol_error + nat" where
  "uint_div a b = (if b = 0 then Inl (Panic 18) else Inr (a div b))"

definition int_mul :: "int \<Rightarrow> int \<Rightarrow> sol_error + int" where
  "int_mul a b = (if - (2 ^ 255) \<le> a * b \<and> a * b < 2 ^ 255 then Inr (a * b) else Inl (Panic 17))"

definition int_sub :: "int \<Rightarrow> int \<Rightarrow> sol_error + int" where
  "int_sub a b = (if - (2 ^ 255) \<le> a - b \<and> a - b < 2 ^ 255 then Inr (a - b) else Inl (Panic 17))"

definition to_int256 :: "nat \<Rightarrow> int" where
  "to_int256 x = (if x < 2 ^ 255 then int x else int x - 2 ^ 256)"

definition to_uint256 :: "int \<Rightarrow> nat" where
  "to_uint256 i = nat (i mod 2 ^ 256)"

text \<open>The state variables that \<open>computeQuote\<close> reads.\<close>

record contract =
  sol_midPrice :: nat
  sol_volatility :: nat
  sol_gamma :: nat
  sol_k :: nat

text \<open>
  \<open>computeQuote(int256 currentInventory, uint256 T, uint256 t)\<close>, a \<open>view\<close> function
  returning \<open>(bidPrice, askPrice)\<close>. Its first statement is
  \<open>require(t <= T, "Elapsed time cannot exceed total duration")\<close>.
\<close>

definition computeQuote :: "contract \<Rightarrow> int \<Rightarrow> nat \<Rightarrow> nat \<Rightarrow> sol_error + (nat \<times> nat)" where
  "computeQuote c currentInventory T0 t0 =
     (if \<not> t0 \<le> T0 then Inl (Revert ''Elapsed time cannot exceed total duration'')
      else
        and_then (uint_mul (sol_volatility c) (sol_volatility c)) (\<lambda>vv.
        and_then (uint_div vv (10 ^ 18)) (\<lambda>sigma2.
        and_then (uint_mul (sol_gamma c) sigma2) (\<lambda>gs.
        and_then (uint_sub T0 t0) (\<lambda>tau.
        and_then (uint_mul gs tau) (\<lambda>gst.
        and_then (uint_div gst (10 ^ 18)) (\<lambda>risk.
        and_then (int_mul currentInventory (to_int256 risk)) (\<lambda>penalty.
        and_then (int_sub (to_int256 (sol_midPrice c)) penalty) (\<lambda>r_t.
        let logTerm = 6 * 10 ^ 16 in
        and_then (uint_div (2 * 10 ^ 18) (sol_gamma c)) (\<lambda>twoOverGamma.
        and_then (uint_mul twoOverGamma logTerm) (\<lambda>liq.
        and_then (uint_div liq (10 ^ 18)) (\<lambda>liquidity.
        and_then (uint_add risk liquidity) (\<lambda>spread0.
        let bidPrice0 = (if to_uint256 r_t > spread0 div 2
                         then to_uint256 r_t - spread0 div 2 else 0) in
        and_then (uint_add (to_uint256 r_t) (spread0 div 2)) (\<lambda>askPrice0.
        Inr (bidPrice0, askPrice0)))))))))))))))"

section \<open>Orders, inventory and market data\<close>

text \<open>
  \<open>order.direction === 'buy'\<close> is the only test the sources make on a direction; every
  other value takes the \<open>else\<close> branch, as \<open>Sell\<close> does.
\<close>

datatype direction = Buy | Sell

record inventory =
  USDT :: real
  ETH :: real

record market_data =
  currentPrice :: real
  volatility :: real
  bidAskSpread :: real
  md_timestamp :: real
  priceChange24h :: real

text \<open>
  The quotes attached to an order, as the executor reads them: the inventory adjustment,
  which may be missing, and the reservation price.
\<close>

record order_quotes =
  oq_inventoryAdjustment :: "real option"
  oq_reservationPrice :: real

text \<open>An order as the orchestrator builds it; \<open>order_id\<close> is its field \<open>id\<close>.\<close>

record order =
  order_id :: string
  direction :: direction
  totalSize :: real
  targetPrice :: real
  duration :: real
  maxParts :: nat
  quotes :: "order_quotes option"

section \<open>The risk manager (risk/RiskManager.js)\<close>

record risk_config =
  cfg_maxDailyLoss :: "real option"
  cfg_maxPositionSize :: "real option"
  cfg_maxOrderSize :: "real option"
  cfg_maxSlippage :: "real option"
  cfg_maxDrawdown :: "real option"

record risk_manager =
  maxDailyLoss :: real
  maxPositionSize :: real
  maxOrderSize :: real
  maxSlippage :: real
  maxDrawdown :: real
  dailyPnL :: real
  currentPosition :: real
  peakValue :: real
  lastResetDate :: string
  emergencyStop :: bool
  tradingPaused :: bool

text \<open>\<open>today\<close> is \<open>new Date().toDateString()\<close> at construction.\<close>

definition RiskManager :: "risk_config \<Rightarrow> string \<Rightarrow> risk_manager" where
  "RiskManager cfg today =
     \<lparr> maxDailyLoss = js_or (cfg_maxDailyLoss cfg) 1000,
       maxPositionSize = js_or (cfg_maxPositionSize cfg) 10,
       maxOrderSize = js_or (cfg_maxOrderSize cfg) 1,
       maxSlippage = js_or (cfg_maxSlippage cfg) 0.005,
       maxDrawdown = js_or (cfg_maxDrawdown cfg) 0.1,
       dailyPnL = 0,
       currentPosition = 0,
       peakValue = 0,
       lastResetDate = today,
       emergencyStop = False,
       tradingPaused = False \<rparr>"

text \<open>
  Each \<open>throw new Error(...)\<close> of \<open>validateOrder\<close> and of the two validators it calls is
  one constructor, in the order of the source: "Trading not allowed", "Order size ...
  exceeds maximum", "New position ... would exceed maximum", "Order would exceed daily loss
  limit", "Bid-ask spread too wide", "Market data too stale", "Extreme market conditions",
  "Expected slippage ... exceeds maximum". The figures interpolated in the messages are
  left out.
\<close>

datatype risk_error =
    TradingNotAllowed
  | OrderSizeExceeded
  | PositionLimitExceeded
  | DailyLossLimitExceeded
  | SpreadTooWide
  | MarketDataStale
  | ExtremeMarketConditions
  | SlippageExceeded

definition isTradingAllowed :: "risk_manager \<Rightarrow> bool" where
  "isTradingAllowed rm =
     (if emergencyStop rm then False
      else if tradingPaused rm then False
      else True)"

definition resetDailyPnLIfNeeded :: "risk_manager \<Rightarrow> string \<Rightarrow> risk_manager" where
  "resetDailyPnLIfNeeded rm today =
     (if today \<noteq> lastResetDate rm
      then rm \<lparr> dailyPnL := 0, lastResetDate := today \<rparr>
      else rm)"

definition calculateNewPosition :: "order \<Rightarrow> inventory \<Rightarrow> real" where
  "calculateNewPosition ord currentInventory =
     (let currentEthPosition = js_or (Some (ETH currentInventory)) 0
      in if direction ord = Buy
         then currentEthPosition + totalSize ord
         else currentEthPosition - totalSize ord)"

definition estimateOrderPnL :: "order \<Rightarrow> market_data \<Rightarrow> real" where
  "estimateOrderPnL ord marketData =
     (let slippageAdjustment = (if direction ord = Buy then 1.002 else 0.998);
          executionPrice = currentPrice marketData * slippageAdjustment
      in if direction ord = Buy
         then totalSize ord * (currentPrice marketData - executionPrice)
         else totalSize ord * (executionPrice - currentPrice marketData))"

text \<open>\<open>now\<close> is the \<open>Date.now()\<close> read for the age of the price.\<close>

definition validateMarketConditions :: "real \<Rightarrow> market_data \<Rightarrow> risk_error + unit" where
  "validateMarketConditions now marketData =
     (if bidAskSpread marketData > 0.01 then Inl SpreadTooWide
      else
        let priceAge = now - md_timestamp marketData
        in if priceAge > 30000 then Inl MarketDataStale
           else if priceChange24h marketData < - 0.2 then Inl ExtremeMarketConditions
           else Inr ())"

definition validateSlippage :: "risk_manager \<Rightarrow> order \<Rightarrow> market_data \<Rightarrow> risk_error + unit" where
  "validateSlippage rm ord marketData =
     (let slippage = \<bar>targetPrice ord - currentPrice marketData\<bar> / currentPrice marketData
      in if slippage > maxSlippage rm then Inl SlippageExceeded else Inr ())"

text \<open>
  \<open>validateOrder\<close> returns \<open>true\<close> or rethrows the error it caught; the state it leaves
  behind is the second component. \<open>today\<close> is the date read by \<open>resetDailyPnLIfNeeded\<close>.
\<close>

definition validateOrder ::
  "risk_manager \<Rightarrow> string \<Rightarrow> real \<Rightarrow> order \<Rightarrow> inventory \<Rightarrow> market_data
     \<Rightarrow> (risk_error + bool) \<times> risk_manager" where
  "validateOrder rm today now ord currentInventory marketData =
     (let rm1 = resetDailyPnLIfNeeded rm today
      in (if \<not> isTradingAllowed rm1 then Inl TradingNotAllowed
          else if totalSize ord > maxOrderSize rm1 then Inl OrderSizeExceeded
          else if \<bar>calculateNewPosition ord currentInventory\<bar> > maxPositionSize rm1
            then Inl PositionLimitExceeded
          else if dailyPnL rm1 + estimateOrderPnL ord marketData < - maxDailyLoss rm1
            then Inl DailyLossLimitExceeded
          else (case validateMarketConditions now marketData of
                  Inl e \<Rightarrow> Inl e
                | Inr u \<Rightarrow> (case validateSlippage rm1 ord marketData of
                             Inl e \<Rightarrow> Inl e
                           | Inr u' \<Rightarrow> Inr True)),
          rm1))"

text \<open>
  The result of an execution as \<open>updateRiskMetrics\<close> reads it; \<open>pnl\<close> may be missing
  (\<open>executionResult.pnl || 0\<close>).
\<close>

record execution_result =
  er_pnl :: "real option"
  er_direction :: direction
  er_size :: real
  er_currentInventory :: inventory
  er_currentPrice :: real

definition calculatePortfolioValue :: "inventory \<Rightarrow> real \<Rightarrow> real" where
  "calculatePortfolioValue invt currentPrice0 =
     (let ethValue = ETH invt * currentPrice0;
          usdtValue = USDT invt
      in ethValue + usdtValue)"

definition calculateDrawdown :: "risk_manager \<Rightarrow> real \<Rightarrow> real" where
  "calculateDrawdown rm currentValue =
     (if peakValue rm = 0 then 0
      else (peakValue rm - currentValue) / peakValue rm)"

definition activateEmergencyStop :: "risk_manager \<Rightarrow> risk_manager" where
  "activateEmergencyStop rm = rm \<lparr> emergencyStop := True, tradingPaused := True \<rparr>"

definition pauseTrading :: "risk_manager \<Rightarrow> risk_manager" where
  "pauseTrading rm = rm \<lparr> tradingPaused := True \<rparr>"

definition resumeTrading :: "risk_manager \<Rightarrow> risk_manager" where
  "resumeTrading rm = rm \<lparr> tradingPaused := False \<rparr>"

definition resetEmergencyStop :: "risk_manager \<Rightarrow> risk_manager" where
  "resetEmergencyStop rm = rm \<lparr> emergencyStop := False, tradingPaused := False \<rparr>"

text \<open>The two warnings at eighty per cent of a limit only print.\<close>

definition checkRiskLimits :: "risk_manager \<Rightarrow> real \<Rightarrow> risk_manager" where
  "checkRiskLimits rm portfolioValue =
     (if dailyPnL rm < - maxDailyLoss rm then activateEmergencyStop rm
      else
        let drawdown = calculateDrawdown rm portfolioValue
        in if drawdown > maxDrawdown rm then activateEmergencyStop rm
           else if \<bar>currentPosition rm\<bar> > maxPositionSize rm then pauseTrading rm
           else rm)"

definition updateRiskMetrics :: "risk_manager \<Rightarrow> execution_result \<Rightarrow> risk_manager" where
  "updateRiskMetrics rm executionResult =
     (let rm1 = rm \<lparr> dailyPnL := dailyPnL rm + js_or (er_pnl executionResult) 0 \<rparr>;
          rm2 = (if er_direction executionResult = Buy
                 then rm1 \<lparr> currentPosition := currentPosition rm1 + er_size executionResult \<rparr>
                 else rm1 \<lparr> currentPosition := currentPosition rm1 - er_size executionResult \<rparr>);
          portfolioValue = calculatePortfolioValue (er_currentInventory executionResult)
                             (er_currentPrice executionResult);
          rm3 = (if portfolioValue > peakValue rm2
                 then rm2 \<lparr> peakValue := portfolioValue \<rparr>
                 else rm2)
      in checkRiskLimits rm3 portfolioValue)"

text \<open>
  A call on the risk manager that changes its state, \<open>resetEmergencyStop\<close> left out, and
  a run of such calls. The wall clock of each \<open>validateOrder\<close> is part of the call, so a
  run may cross midnight any number of times.
\<close>

datatype risk_call =
    ValidateOrder string real order inventory market_data
  | UpdateRiskMetrics execution_result
  | ActivateEmergencyStop
  | PauseTrading
  | ResumeTrading

fun risk_step :: "risk_manager \<Rightarrow> risk_call \<Rightarrow> risk_manager" where
  "risk_step rm (ValidateOrder today now ord invt md) = snd (validateOrder rm today now ord invt md)"
| "risk_step rm (UpdateRiskMetrics er) = updateRiskMetrics rm er"
| "risk_step rm ActivateEmergencyStop = activateEmergencyStop rm"
| "risk_step rm PauseTrading = pauseTrading rm"
| "risk_step rm ResumeTrading = resumeTrading rm"

fun risk_run :: "risk_manager \<Rightarrow> risk_call list \<Rightarrow> risk_manager" where
  "risk_run rm [] = rm"
| "risk_run rm (c # cs) = risk_run (risk_step rm c) cs"

text \<open>
  The constraints of \<open>validateOrder\<close> as the specification lists them, in its order, each
  with the error that names it, and the first one violated. The bounds are those of the
  code where the specification leaves them open or differs: a spread of at most 1%, and
  an age of at most 30 s (the specification asks for less than 30 s).
\<close>

definition spec_constraints ::
  "risk_manager \<Rightarrow> real \<Rightarrow> order \<Rightarrow> inventory \<Rightarrow> market_data \<Rightarrow> (bool \<times> risk_error) list" where
  "spec_constraints rm now ord invt md =
     [ (isTradingAllowed rm, TradingNotAllowed),
       (totalSize ord \<le> maxOrderSize rm, OrderSizeExceeded),
       (\<bar>calculateNewPosition ord invt\<bar> \<le> maxPositionSize rm, PositionLimitExceeded),
       (dailyPnL rm + estimateOrderPnL ord md \<ge> - maxDailyLoss rm, DailyLossLimitExceeded),
       (bidAskSpread md \<le> 0.01, SpreadTooWide),
       (now - md_timestamp md \<le> 30000, MarketDataStale),
       (\<not> priceChange24h md < - 0.2, ExtremeMarketConditions),
       (\<bar>targetPrice ord - currentPrice md\<bar> / currentPrice md \<le> maxSlippage rm, SlippageExceeded) ]"

fun first_violation :: "(bool \<times> risk_error) list \<Rightarrow> risk_error option" where
  "first_violation [] = None"
| "first_violation ((ok, e) # cs) = (if ok then first_violation cs else Some e)"


section \<open>The TWAP executor (execution/TWAPExecutor.js)\<close>

datatype part_status = Pending | Executed | Failed

datatype order_status = Active | Completed | OrderFailed

text \<open>
  A part of an execution plan. \<open>part_size\<close> and \<open>part_targetPrice\<close> are the fields \<open>size\<close>
  and \<open>targetPrice\<close>; the fields written by \<open>executePart\<close> are absent until then. The
  wall-clock stamp \<open>timestamp\<close> is left out.
\<close>

record part_spec =
  partIndex :: nat
  part_size :: real
  executionTime :: real
  status :: part_status
  part_targetPrice :: real
  executedPrice :: "real option"
  executedSize_p :: "real option"
  gasUsed :: "real option"
  txHash :: "string option"
  part_error :: "string option"

text \<open>
  The entry of \<open>activeOrders\<close>: the order spread into a new object with the plan and the
  running totals. \<open>startTime\<close> and \<open>endTime\<close> are left out.
\<close>

record active_order = order +
  executionPlan :: "part_spec list"
  executedParts :: nat
  executedSize :: real
  totalPnL :: real
  ostatus :: order_status
  oerror :: "string option"

record history_entry =
  h_orderId :: string
  h_partIndex :: nat
  h_price :: real
  h_size :: real
  h_direction :: direction
  h_pnl :: real

datatype event =
    OrderStarted string
  | PartExecuted string nat
  | OrderCompleted string
  | OrderFailedEvent string string

record executor_config =
  xcfg_minOrderSize :: "real option"
  xcfg_maxOrderSize :: "real option"
  xcfg_maxSlippage :: "real option"

text \<open>
  Order objects are shared: the \<open>activeOrders\<close> map holds the object that the closure of
  \<open>scheduleExecution\<close> also holds, and \<open>delete\<close> removes the key, not the object. Order
  ids are unique, so the objects are kept in \<open>store\<close> under their id and \<open>active\<close> is the
  set of keys of the map. \<open>events\<close> lists what has been emitted. \<open>currentInventory\<close>,
  which \<open>updateBalances\<close> alone writes and nothing below reads, and the wallet and
  contracts are left out.
\<close>

record executor =
  store :: "string \<Rightarrow> active_order"
  active :: "string set"
  executionHistory :: "history_entry list"
  events :: "event list"
  minOrderSize :: real
  ex_maxOrderSize :: real
  ex_maxSlippage :: real

text \<open>
  What a slot of the store holds before an order is put under its key. It is never read:
  a key enters \<open>active\<close> when its slot is written.
\<close>

definition empty_order :: active_order where
  "empty_order =
     \<lparr> order_id = [], direction = Sell, totalSize = 0, targetPrice = 0, duration = 0, maxParts = 0,
       quotes = None, executionPlan = [], executedParts = 0, executedSize = 0, totalPnL = 0,
       ostatus = Active, oerror = None \<rparr>"

definition TWAPExecutor :: "executor_config \<Rightarrow> executor" where
  "TWAPExecutor cfg =
     \<lparr> store = (\<lambda>oid. empty_order),
       active = {},
       executionHistory = [],
       events = [],
       minOrderSize = js_or (xcfg_minOrderSize cfg) (fl 0.01),
       ex_maxOrderSize = js_or (xcfg_maxOrderSize cfg) 1.0,
       ex_maxSlippage = js_or (xcfg_maxSlippage cfg) (fl 0.005) \<rparr>"

definition activeOrders_get :: "executor \<Rightarrow> string \<Rightarrow> active_order option" where
  "activeOrders_get ex oid = (if oid \<in> active ex then Some (store ex oid) else None)"

subsection \<open>The execution plan\<close>

text \<open>
  One iteration of the loop of \<open>calculateExecutionPlan\<close>, in double arithmetic. \<open>now\<close> is
  the \<open>Date.now()\<close> read of this iteration, a whole number of milliseconds; the loop
  counter \<open>i\<close> is a whole number too. \<open>quotes && quotes.inventoryAdjustment\<close> is truthy
  when the quotes are there and the adjustment is there and not \<open>0\<close>.
\<close>

definition plan_part ::
  "executor \<Rightarrow> real \<Rightarrow> real \<Rightarrow> real \<Rightarrow> order_quotes option \<Rightarrow> nat \<Rightarrow> part_spec" where
  "plan_part ex now timePerPart baseSize qs i =
     (let executionTime0 = fl (now + fl (real i * timePerPart));
          partSize = baseSize;
          partSize = (case qs of
                        None \<Rightarrow> partSize
                      | Some qu \<Rightarrow> (case oq_inventoryAdjustment qu of
                                     None \<Rightarrow> partSize
                                   | Some adj \<Rightarrow> if adj = 0 then partSize
                                                else fl (partSize * fl (1 + fl (adj * fl 0.1)))));
          partSize = max (minOrderSize ex) (min (ex_maxOrderSize ex) partSize)
      in \<lparr> partIndex = i,
           part_size = partSize,
           executionTime = executionTime0,
           status = Pending,
           part_targetPrice = (case qs of None \<Rightarrow> 0 | Some qu \<Rightarrow> oq_reservationPrice qu),
           executedPrice = None,
           executedSize_p = None,
           gasUsed = None,
           txHash = None,
           part_error = None \<rparr>)"

text \<open>The loop; \<open>clock i\<close> is what \<open>Date.now()\<close> returns in iteration \<open>i\<close>.\<close>

function plan_loop ::
  "executor \<Rightarrow> (nat \<Rightarrow> real) \<Rightarrow> real \<Rightarrow> real \<Rightarrow> nat \<Rightarrow> order_quotes option \<Rightarrow> nat
     \<Rightarrow> part_spec list \<Rightarrow> part_spec list" where
  "plan_loop ex clock timePerPart baseSize maxParts0 qs i plan =
     (if i < maxParts0
      then plan_loop ex clock timePerPart baseSize maxParts0 qs (Suc i)
             (plan @ [plan_part ex (clock i) timePerPart baseSize qs i])
      else plan)"
  by pat_completeness auto
termination
  by (relation "measure (\<lambda>(ex, clock, timePerPart, baseSize, maxParts0, qs, i, plan). maxParts0 - i)")
    auto

definition calculateExecutionPlan ::
  "executor \<Rightarrow> (nat \<Rightarrow> real) \<Rightarrow> real \<Rightarrow> real \<Rightarrow> nat \<Rightarrow> order_quotes option \<Rightarrow> part_spec list" where
  "calculateExecutionPlan ex clock totalSize0 duration0 maxParts0 qs =
     (let timePerPart = fl (duration0 / real maxParts0);
          baseSize = fl (totalSize0 / real maxParts0)
      in plan_loop ex clock timePerPart baseSize maxParts0 qs 0 [])"


declare plan_loop.simps [simp del]

text \<open>The order carries no inventory skew: no quotes, or no adjustment, or adjustment \<open>0\<close>.\<close>

definition no_inventory_skew :: "order_quotes option \<Rightarrow> bool" where
  "no_inventory_skew qs =
     (case qs of
        None \<Rightarrow> True
      | Some qu \<Rightarrow> (case oq_inventoryAdjustment qu of None \<Rightarrow> True | Some adj \<Rightarrow> adj = 0))"

text \<open>
  The executor adds sizes up as \<open>calculateAveragePrice\<close> does, with
  \<open>reduce((sum, part) => sum + part.executedSize, 0)\<close>: from the left, from \<open>0\<close>, every
  addition rounded.
\<close>

definition reduce_sum :: "real list \<Rightarrow> real" where
  "reduce_sum xs = foldl (\<lambda>sum x. fl (sum + x)) 0 xs"

subsection \<open>Executing the parts\<close>

text \<open>
  What the outside world answers when a part is executed: the 1inch quote (an error text,
  or the quoted destination amount as \<open>parseFloat\<close> reads it), and the swap with its
  transaction (an error text, or the gas used and the hash of the receipt).
\<close>

record backend_reply =
  quote_reply :: "string + real"
  swap_reply :: "string + real \<times> string"

record tx_result =
  tx_price :: real
  tx_size :: real
  tx_pnl :: real
  tx_gasUsed :: real
  tx_txHash :: string

definition executeBuyOrder :: "executor \<Rightarrow> part_spec \<Rightarrow> backend_reply \<Rightarrow> string + tx_result" where
  "executeBuyOrder ex part reply =
     (case quote_reply reply of
        Inl statusText \<Rightarrow> Inl (''1inch quote failed: '' @ statusText)
      | Inr quotedEth \<Rightarrow>
          let expectedEth = part_size part;
              slippage = \<bar>quotedEth - expectedEth\<bar> / expectedEth
          in if slippage > ex_maxSlippage ex then Inl ''Slippage too high''
             else (case swap_reply reply of
                     Inl err \<Rightarrow> Inl err
                   | Inr (gas, hash) \<Rightarrow>
                       Inr \<lparr> tx_price = part_targetPrice part, tx_size = quotedEth, tx_pnl = 0,
                             tx_gasUsed = gas, tx_txHash = hash \<rparr>))"

definition executeSellOrder :: "executor \<Rightarrow> part_spec \<Rightarrow> backend_reply \<Rightarrow> string + tx_result" where
  "executeSellOrder ex part reply =
     (case quote_reply reply of
        Inl statusText \<Rightarrow> Inl (''1inch quote failed: '' @ statusText)
      | Inr quotedUsdt \<Rightarrow>
          let expectedUsdt = part_size part * part_targetPrice part;
              slippage = \<bar>quotedUsdt - expectedUsdt\<bar> / expectedUsdt
          in if slippage > ex_maxSlippage ex then Inl ''Slippage too high''
             else (case swap_reply reply of
                     Inl err \<Rightarrow> Inl err
                   | Inr (gas, hash) \<Rightarrow>
                       Inr \<lparr> tx_price = quotedUsdt / part_size part, tx_size = part_size part,
                             tx_pnl = 0, tx_gasUsed = gas, tx_txHash = hash \<rparr>))"

text \<open>
  The \<open>if\<close> at the head of the \<open>try\<close> block of \<open>executePart\<close>. \<open>env oid i\<close> is the reply
  of the outside world for part \<open>i\<close> of order \<open>oid\<close>.
\<close>

definition txResult_of ::
  "(string \<Rightarrow> nat \<Rightarrow> backend_reply) \<Rightarrow> executor \<Rightarrow> string \<Rightarrow> nat \<Rightarrow> string + tx_result" where
  "txResult_of env ex oid i =
     (let part = executionPlan (store ex oid) ! i
      in if direction (store ex oid) = Buy
         then executeBuyOrder ex part (env oid i)
         else executeSellOrder ex part (env oid i))"

definition update_order :: "executor \<Rightarrow> string \<Rightarrow> (active_order \<Rightarrow> active_order) \<Rightarrow> executor" where
  "update_order ex oid f = ex \<lparr> store := (store ex) (oid := f (store ex oid)) \<rparr>"

definition update_part :: "executor \<Rightarrow> string \<Rightarrow> nat \<Rightarrow> (part_spec \<Rightarrow> part_spec) \<Rightarrow> executor" where
  "update_part ex oid i f =
     update_order ex oid
       (\<lambda>ord. ord \<lparr> executionPlan := (executionPlan ord) [i := f (executionPlan ord ! i)] \<rparr>)"

text \<open>
  \<open>executePart(orderId, part)\<close>, the part being element \<open>i\<close> of the plan of the order. An
  order that is no longer in the map makes \<open>order.direction\<close> throw inside the \<open>try\<close>.
  The result is the error rethrown, or nothing, and the new state. Listeners of the
  emitted events do not throw.
\<close>

definition executePart ::
  "(string \<Rightarrow> nat \<Rightarrow> backend_reply) \<Rightarrow> executor \<Rightarrow> string \<Rightarrow> nat \<Rightarrow> (string + unit) \<times> executor" where
  "executePart env ex oid i =
     (case (case activeOrders_get ex oid of
              None \<Rightarrow> Inl ''Cannot read properties of undefined''
            | Some ord \<Rightarrow> txResult_of env ex oid i) of
        Inl message \<Rightarrow>
          (Inl message,
           update_part ex oid i (\<lambda>part. part \<lparr> status := Failed, part_error := Some message \<rparr>))
      | Inr txResult \<Rightarrow>
          (let ex1 = update_part ex oid i
                       (\<lambda>part. part \<lparr> status := Executed,
                                      executedPrice := Some (tx_price txResult),
                                      executedSize_p := Some (tx_size txResult),
                                      gasUsed := Some (tx_gasUsed txResult),
                                      txHash := Some (tx_txHash txResult) \<rparr>);
               ex2 = update_order ex1 oid
                       (\<lambda>ord. ord \<lparr> executedSize := executedSize ord + tx_size txResult,
                                    totalPnL := totalPnL ord + tx_pnl txResult \<rparr>);
               ex3 = ex2 \<lparr> events := events ex2 @ [PartExecuted oid (partIndex (executionPlan (store ex oid) ! i))] \<rparr>;
               ex4 = ex3 \<lparr> executionHistory := executionHistory ex3 @
                             [\<lparr> h_orderId = oid,
                                h_partIndex = partIndex (executionPlan (store ex oid) ! i),
                                h_price = tx_price txResult,
                                h_size = tx_size txResult,
                                h_direction = direction (store ex oid),
                                h_pnl = tx_pnl txResult \<rparr>] \<rparr>
           in (Inr (), ex4)))"

definition completeOrder :: "executor \<Rightarrow> string \<Rightarrow> executor" where
  "completeOrder ex oid =
     (case activeOrders_get ex oid of
        None \<Rightarrow> ex
      | Some ord \<Rightarrow>
          (let ex1 = update_order ex oid (\<lambda>ord. ord \<lparr> ostatus := Completed \<rparr>);
               ex2 = ex1 \<lparr> events := events ex1 @ [OrderCompleted oid] \<rparr>
           in ex2 \<lparr> active := active ex2 - {oid} \<rparr>))"

definition failOrder :: "executor \<Rightarrow> string \<Rightarrow> string \<Rightarrow> executor" where
  "failOrder ex oid message =
     (case activeOrders_get ex oid of
        None \<Rightarrow> ex
      | Some ord \<Rightarrow>
          (let ex1 = update_order ex oid
                       (\<lambda>ord. ord \<lparr> ostatus := OrderFailed, oerror := Some message \<rparr>);
               ex2 = ex1 \<lparr> events := events ex1 @ [OrderFailedEvent oid message] \<rparr>
           in ex2 \<lparr> active := active ex2 - {oid} \<rparr>))"

text \<open>
  \<open>executeNextPart\<close>, the closure of \<open>scheduleExecution\<close>, over the order object kept
  under \<open>oid\<close>. A run of it that comes before the time of the current part re-arms the
  timer and changes nothing; after a part it is run again by a timer one second later.
  The function is the sequence of the runs that find their part due; the runs of other
  orders in between touch other objects.
\<close>

function executeNextPart ::
  "(string \<Rightarrow> nat \<Rightarrow> backend_reply) \<Rightarrow> executor \<Rightarrow> string \<Rightarrow> executor" where
  "executeNextPart env ex oid =
     (let ord = store ex oid
      in if length (executionPlan ord) \<le> executedParts ord then completeOrder ex oid
         else if status (executionPlan ord ! executedParts ord) \<noteq> Pending then completeOrder ex oid
         else if isl (fst (executePart env ex oid (executedParts ord)))
           then failOrder (snd (executePart env ex oid (executedParts ord))) oid
                  (projl (fst (executePart env ex oid (executedParts ord))))
         else
           let ex1 = snd (executePart env ex oid (executedParts ord));
               ex2 = update_order ex1 oid (\<lambda>ord. ord \<lparr> executedParts := executedParts ord + 1 \<rparr>)
           in if executedParts (store ex2 oid) < length (executionPlan (store ex2 oid))
              then executeNextPart env ex2 oid
              else completeOrder ex2 oid)"
  by pat_completeness auto
termination
proof (relation "measure (\<lambda>(env, ex, oid).
         length (executionPlan (store ex oid)) - executedParts (store ex oid))")
  show "wf (measure (\<lambda>(env, ex, oid).
         length (executionPlan (store ex oid)) - executedParts (store ex oid)))"
    by simp
next
  fix env :: "string \<Rightarrow> nat \<Rightarrow> backend_reply" and ex :: executor and oid :: string
    and ord ex1 ex2
  assume ord: "ord = store ex oid"
    and more: "\<not> length (executionPlan ord) \<le> executedParts ord"
    and ok: "\<not> isl (fst (executePart env ex oid (executedParts ord)))"
    and ex1: "ex1 = snd (executePart env ex oid (executedParts ord))"
    and ex2: "ex2 = update_order ex1 oid (\<lambda>ord. ord \<lparr> executedParts := executedParts ord + 1 \<rparr>)"
  have "length (executionPlan (store ex1 oid)) = length (executionPlan (store ex oid))
        \<and> executedParts (store ex1 oid) = executedParts (store ex oid)"
    unfolding ex1
    by (simp add: executePart_def update_part_def update_order_def Let_def
        split: option.splits sum.splits)
  then show "((env, ex2, oid), (env, ex, oid)) \<in> measure (\<lambda>(env, ex, oid).
         length (executionPlan (store ex oid)) - executedParts (store ex oid))"
    using more unfolding ex2 ord by (simp add: update_order_def)
qed

declare executeNextPart.simps [simp del]

definition scheduleExecution ::
  "(string \<Rightarrow> nat \<Rightarrow> backend_reply) \<Rightarrow> executor \<Rightarrow> string \<Rightarrow> executor" where
  "scheduleExecution env ex oid =
     (case activeOrders_get ex oid of
        None \<Rightarrow> ex
      | Some ord \<Rightarrow> executeNextPart env ex oid)"

text \<open>
  \<open>executeTWAPOrder\<close>. \<open>scheduleExecution\<close> runs until its first wait before
  \<open>orderStarted\<close> is emitted: with an empty plan the order is completed before it is
  announced, otherwise the announcement comes before the answer for the first part.
\<close>

definition executeTWAPOrder ::
  "(string \<Rightarrow> nat \<Rightarrow> backend_reply) \<Rightarrow> (nat \<Rightarrow> real) \<Rightarrow> executor \<Rightarrow> order \<Rightarrow> executor" where
  "executeTWAPOrder env clock ex ord =
     (let executionPlan0 = calculateExecutionPlan ex clock (totalSize ord) (duration ord)
                             (maxParts ord) (quotes ord);
          entry = order.extend ord
                    (active_order.fields executionPlan0 0 0 0 Active None);
          ex1 = ex \<lparr> store := (store ex) (order_id ord := entry), active := insert (order_id ord) (active ex) \<rparr>
      in if executionPlan0 = []
         then (let ex2 = scheduleExecution env ex1 (order_id ord)
               in ex2 \<lparr> events := events ex2 @ [OrderStarted (order_id ord)] \<rparr>)
         else scheduleExecution env (ex1 \<lparr> events := events ex1 @ [OrderStarted (order_id ord)] \<rparr>) (order_id ord))"


text \<open>
  What a run that fails at part \<open>j\<close> with the error \<open>message\<close> leaves of the order \<open>oid\<close>,
  \<open>ex\<close> being the state before the run and \<open>ex'\<close> the state after it: part \<open>j\<close> is failed
  and carries the error, the order is failed, carries the error and is no longer in the
  map, the parts from the current one up to \<open>j\<close> are executed, and every other part of the
  plan is as it was.
\<close>

definition order_aborted_at :: "executor \<Rightarrow> executor \<Rightarrow> string \<Rightarrow> nat \<Rightarrow> string \<Rightarrow> bool" where
  "order_aborted_at ex ex' oid j message \<longleftrightarrow>
     status (executionPlan (store ex' oid) ! j) = Failed
     \<and> part_error (executionPlan (store ex' oid) ! j) = Some message
     \<and> ostatus (store ex' oid) = OrderFailed
     \<and> oerror (store ex' oid) = Some message
     \<and> oid \<notin> active ex'
     \<and> length (executionPlan (store ex' oid)) = length (executionPlan (store ex oid))
     \<and> (\<forall>i. j < i \<and> i < length (executionPlan (store ex oid)) \<longrightarrow>
            executionPlan (store ex' oid) ! i = executionPlan (store ex oid) ! i)
     \<and> (\<forall>i. executedParts (store ex oid) \<le> i \<and> i < j \<longrightarrow>
            status (executionPlan (store ex' oid) ! i) = Executed)
     \<and> (\<forall>i. i < executedParts (store ex oid) \<longrightarrow>
            executionPlan (store ex' oid) ! i = executionPlan (store ex oid) ! i)"


section \<open>Concrete inputs\<close>

text \<open>A model built with no parameter given: every field takes its default.\<close>

definition default_params :: model_params where
  "default_params = \<lparr> p_gamma = None, p_sigma = None, p_T = None, p_k = None, p_A = None \<rparr>"


text \<open>A risk manager with every limit at its default, and inputs for it.\<close>

definition default_risk_config :: risk_config where
  "default_risk_config =
     \<lparr> cfg_maxDailyLoss = None, cfg_maxPositionSize = None, cfg_maxOrderSize = None,
       cfg_maxSlippage = None, cfg_maxDrawdown = None \<rparr>"

definition oversized_order :: order where
  "oversized_order =
     \<lparr> order_id = ''twap_1'', direction = Buy, totalSize = 1.5, targetPrice = 3400,
       duration = 300000, maxParts = 10, quotes = None \<rparr>"

definition calm_market :: market_data where
  "calm_market =
     \<lparr> currentPrice = 3400, volatility = 0.02, bidAskSpread = 0.001, md_timestamp = 1000,
       priceChange24h = 0.01 \<rparr>"

definition holdings :: inventory where
  "holdings = \<lparr> USDT = 10000, ETH = 5 \<rparr>"

definition small_loss :: execution_result where
  "small_loss =
     \<lparr> er_pnl = Some (- 50), er_direction = Buy, er_size = 0.1,
       er_currentInventory = holdings, er_currentPrice = 3400 \<rparr>"

definition big_loss :: execution_result where
  "big_loss =
     \<lparr> er_pnl = Some (- 1500), er_direction = Sell, er_size = 0.1,
       er_currentInventory = holdings, er_currentPrice = 3400 \<rparr>"

text \<open>An executor with its default limits.\<close>

definition default_executor :: executor where
  "default_executor =
     TWAPExecutor \<lparr> xcfg_minOrderSize = None, xcfg_maxOrderSize = None, xcfg_maxSlippage = None \<rparr>"

text \<open>
  An order of three parts of 0.25, a backend that quotes 0.5 for the second part (a
  slippage of 100%), and the executor state in which the order has just been stored and
  announced.
\<close>

definition three_part_order :: order where
  "three_part_order =
     \<lparr> order_id = ''twap_1'', direction = Buy, totalSize = 0.75, targetPrice = 3400,
       duration = 300000, maxParts = 3,
       quotes = Some \<lparr> oq_inventoryAdjustment = Some 0, oq_reservationPrice = 3400 \<rparr> \<rparr>"

definition slipping_backend :: "string \<Rightarrow> nat \<Rightarrow> backend_reply" where
  "slipping_backend oid i =
     (if i = 1 then \<lparr> quote_reply = Inr 0.5, swap_reply = Inr (21000, ''0xb'') \<rparr>
      else \<lparr> quote_reply = Inr 0.25, swap_reply = Inr (21000, ''0xa'') \<rparr>)"

definition started_executor :: executor where
  "started_executor =
     default_executor
       \<lparr> store := (store default_executor)
            (''twap_1'' := order.extend three_part_order
               (active_order.fields
                  (calculateExecutionPlan default_executor (\<lambda>i. 1000) 0.75 300000 3
                     (Some \<lparr> oq_inventoryAdjustment = Some 0, oq_reservationPrice = 3400 \<rparr>))
                  0 0 0 Active None)),
         active := {''twap_1''},
         events := [OrderStarted ''twap_1''] \<rparr>"

text \<open>
  The contract with its initial parameters (\<open>gamma = 1e16\<close>, \<open>k = 15e17\<close>) after the bot
  has pushed a mid price of 3400 and a volatility of 0.2, both scaled by \<open>1e18\<close>.
\<close>

definition pushed_contract :: contract where
  "pushed_contract =
     \<lparr> sol_midPrice = 3400 * 10 ^ 18, sol_volatility = 2 * 10 ^ 17,
       sol_gamma = 10 ^ 16, sol_k = 15 * 10 ^ 17 \<rparr>"

section \<open>Facts about the concrete inputs\<close>

lemma default_model_fields:
  "gamma (AvellanedaStoikovModel default_params) = 0.1"
  "sigma (AvellanedaStoikovModel default_params) = 0.2"
  "T (AvellanedaStoikovModel default_params) = 1"
  "k (AvellanedaStoikovModel default_params) = 1.5"
  "A (AvellanedaStoikovModel default_params) = 100"
  "q_target (AvellanedaStoikovModel default_params) = 0"
  by (simp_all add: AvellanedaStoikovModel_def default_params_def js_or_def)

subsection \<open>Bounds on \<open>ln (16 / 15)\<close>\<close>

text \<open>
  With \<open>\<gamma> = 0.1\<close> and \<open>k = 1.5\<close> the liquidity term is a multiple of \<open>ln (16 / 15)\<close>.
  The upper bound comes from the quadratic lower bound of \<open>exp\<close>, the lower bound from
  \<open>(1 - x / 64) ^ 64 \<le> exp (- x)\<close>, the power being bounded by six squarings.
\<close>

lemma power_double_lower:
  fixes x :: real
  assumes "0 \<le> a" and "a \<le> x ^ n" and "b \<le> a * a"
  shows "b \<le> x ^ (2 * n)"
proof -
  have "a * a \<le> x ^ n * x ^ n"
    using assms(1,2) by (simp add: mult_mono)
  also have "\<dots> = x ^ (2 * n)"
    by (simp add: mult_2 power_add)
  finally show ?thesis
    using assms(3) by simp
qed

lemma pow64_lower: "(15 / 16 :: real) \<le> (127871 / 128000) ^ 64"
proof -
  let ?x = "127871 / 128000 :: real"
  have s1: "(0.99798539 :: real) \<le> ?x ^ (2 * 1)"
    by (rule power_double_lower [where a = ?x]) simp_all
  have s2: "(0.995974838 :: real) \<le> ?x ^ (2 * (2 * 1))"
    by (rule power_double_lower [OF _ s1]) simp_all
  have s3: "(0.991965877 :: real) \<le> ?x ^ (2 * (2 * (2 * 1)))"
    by (rule power_double_lower [OF _ s2]) simp_all
  have s4: "(0.983996301 :: real) \<le> ?x ^ (2 * (2 * (2 * (2 * 1))))"
    by (rule power_double_lower [OF _ s3]) simp_all
  have s5: "(0.96824872 :: real) \<le> ?x ^ (2 * (2 * (2 * (2 * (2 * 1)))))"
    by (rule power_double_lower [OF _ s4]) simp_all
  have s6: "(0.9375 :: real) \<le> ?x ^ (2 * (2 * (2 * (2 * (2 * (2 * 1))))))"
    by (rule power_double_lower [OF _ s5]) simp_all
  then show ?thesis by simp
qed

lemma ln_16_15_upper: "ln (16 / 15 :: real) \<le> 0.0646"
proof -
  have "(16 / 15 :: real) \<le> 1 + 0.0646 + 0.0646\<^sup>2 / 2"
    by (simp add: power2_eq_square)
  also have "\<dots> \<le> exp 0.0646"
    by (rule exp_lower_Taylor_quadratic) simp
  finally have "exp (ln (16 / 15 :: real)) \<le> exp 0.0646"
    by simp
  then show ?thesis
    by (simp only: exp_le_cancel_iff)
qed

lemma ln_16_15_lower: "0.0645 \<le> ln (16 / 15 :: real)"
proof -
  have "(15 / 16 :: real) \<le> (1 - 0.0645 / real 64) ^ 64"
    using pow64_lower by simp
  also have "\<dots> \<le> exp (- 0.0645)"
    by (rule exp_ge_one_minus_x_over_n_power_n) simp_all
  finally have "exp 0.0645 \<le> (16 / 15 :: real)"
    by (simp add: exp_minus field_simps)
  then have "exp 0.0645 \<le> exp (ln (16 / 15 :: real))"
    by simp
  then show ?thesis
    by (simp only: exp_le_cancel_iff)
qed

section \<open>Quotes of the model\<close>

lemma calculateOptimalSpread_eq:
  "calculateOptimalSpread m t0
     = gamma m * (sigma m)\<^sup>2 * (T m - t0) + (4 / gamma m) * ln (1 + gamma m / k m)"
  by (simp add: calculateOptimalSpread_def Let_def algebra_simps)

lemma quote_fields:
  "reservationPrice (calculateOptimalQuotes m S0 q0 t0) = calculateReservationPrice m S0 q0 t0"
  "spread (calculateOptimalQuotes m S0 q0 t0) = calculateOptimalSpread m t0"
  "inventoryAdjustment (calculateOptimalQuotes m S0 q0 t0) = calculateInventoryAdjustment m q0"
  "bidPrice (calculateOptimalQuotes m S0 q0 t0)
     = max (calculateReservationPrice m S0 q0 t0 - calculateOptimalSpread m t0 / 2
              - calculateInventoryAdjustment m q0) (S0 * 0.95)"
  "askPrice (calculateOptimalQuotes m S0 q0 t0)
     = min (calculateReservationPrice m S0 q0 t0 + calculateOptimalSpread m t0 / 2
              + calculateInventoryAdjustment m q0) (S0 * 1.05)"
  by (simp_all add: calculateOptimalQuotes_def Let_def)

lemma default_spread:
  "calculateOptimalSpread (AvellanedaStoikovModel default_params) 0 = 0.004 + 40 * ln (16 / 15)"
  by (simp add: calculateOptimalSpread_eq default_model_fields power2_eq_square)

lemma calculateOptimalSpread_nonneg:
  assumes "0 < gamma m" and "0 < k m" and "t0 \<le> T m"
  shows "0 \<le> calculateOptimalSpread m t0"
proof -
  have "0 \<le> ln (1 + gamma m / k m)"
    using assms(1,2) by simp
  moreover have "0 \<le> gamma m * (sigma m)\<^sup>2 * (T m - t0)"
    using assms(1,3) by simp
  ultimately show ?thesis
    using assms(1) by (simp add: calculateOptimalSpread_eq)
qed

lemma calculateInventoryAdjustment_nonneg:
  assumes "0 \<le> sigma m" and "q_target m \<le> q0"
  shows "0 \<le> calculateInventoryAdjustment m q0"
  using assms by (simp add: calculateInventoryAdjustment_def)

text \<open>
  When the clamped quote brackets the reservation price: the reservation price is within
  five per cent of the mid price and the inventory adjustment does not eat the half
  spread.
\<close>

lemma quote_ordering_iff:
  "bidPrice (calculateOptimalQuotes m S0 q0 t0) \<le> reservationPrice (calculateOptimalQuotes m S0 q0 t0)
   \<and> reservationPrice (calculateOptimalQuotes m S0 q0 t0) \<le> askPrice (calculateOptimalQuotes m S0 q0 t0)
   \<longleftrightarrow>
   S0 * 0.95 \<le> calculateReservationPrice m S0 q0 t0
   \<and> calculateReservationPrice m S0 q0 t0 \<le> S0 * 1.05
   \<and> 0 \<le> calculateOptimalSpread m t0 / 2 + calculateInventoryAdjustment m q0"
  by (auto simp add: quote_fields)

text \<open>
  The spread of the quote. \<open>calculateOptimalSpread\<close> adds the liquidity term
  \<open>(2 / \<gamma>) ln (1 + \<gamma> / k)\<close> to half the risk term and doubles the sum, so the quote
  carries \<open>\<gamma> \<sigma>\<^sup>2 (T - t) + (4 / \<gamma>) ln (1 + \<gamma> / k)\<close>.
\<close>

lemma calculateOptimalQuotes_spread:
  "spread (calculateOptimalQuotes m S0 q0 t0)
     = gamma m * (sigma m)\<^sup>2 * (T m - t0) + (4 / gamma m) * ln (1 + gamma m / k m)"
  by (simp add: quote_fields calculateOptimalSpread_eq)

text \<open>
  C1. At \<open>\<gamma> = 0.1\<close>, \<open>\<sigma> = 0.2\<close>, \<open>T = 1\<close>, \<open>k = 1.5\<close>, \<open>t = 0\<close>, \<open>S = 3400\<close>, \<open>q = 0\<close> the
  quote of the model has the spread \<open>0.004 + 40 ln (16 / 15)\<close>, about 2.586, a bid of
  about 3398.707 and an ask of about 3401.293. The spread is not
  \<open>\<gamma> \<sigma>\<^sup>2 (T - t) + (2 / \<gamma>) ln (1 + \<gamma> / k) = 0.004 + 20 ln (16 / 15)\<close>, about 1.294.
\<close>

theorem model_spread_at_scenario:
  "spread (calculateOptimalQuotes (AvellanedaStoikovModel default_params) 3400 0 0)
     = 0.004 + 40 * ln (16 / 15)
   \<and> spread (calculateOptimalQuotes (AvellanedaStoikovModel default_params) 3400 0 0)
       \<noteq> 0.1 * 0.2\<^sup>2 * (1 - 0) + (2 / 0.1) * ln (1 + 0.1 / 1.5)
   \<and> 2.584 \<le> spread (calculateOptimalQuotes (AvellanedaStoikovModel default_params) 3400 0 0)
   \<and> spread (calculateOptimalQuotes (AvellanedaStoikovModel default_params) 3400 0 0) \<le> 2.588
   \<and> 3398.706 \<le> bidPrice (calculateOptimalQuotes (AvellanedaStoikovModel default_params) 3400 0 0)
   \<and> bidPrice (calculateOptimalQuotes (AvellanedaStoikovModel default_params) 3400 0 0) \<le> 3398.708
   \<and> 3401.292 \<le> askPrice (calculateOptimalQuotes (AvellanedaStoikovModel default_params) 3400 0 0)
   \<and> askPrice (calculateOptimalQuotes (AvellanedaStoikovModel default_params) 3400 0 0) \<le> 3401.294"
proof -
  let ?m = "AvellanedaStoikovModel default_params"
  have s: "spread (calculateOptimalQuotes ?m 3400 0 0) = 0.004 + 40 * ln (16 / 15)"
    by (simp add: quote_fields default_spread)
  have c: "0.1 * 0.2\<^sup>2 * (1 - 0) + (2 / 0.1) * ln (1 + 0.1 / 1.5)
          = 0.004 + 20 * ln (16 / 15 :: real)"
    by (simp add: power2_eq_square)
  have n: "spread (calculateOptimalQuotes ?m 3400 0 0)
             \<noteq> 0.1 * 0.2\<^sup>2 * (1 - 0) + (2 / 0.1) * ln (1 + 0.1 / 1.5)"
    unfolding s c using ln_16_15_lower by simp
  have r: "calculateReservationPrice ?m 3400 0 0 = 3400"
    by (simp add: calculateReservationPrice_def Let_def)
  have a: "calculateInventoryAdjustment ?m 0 = 0"
    by (simp add: calculateInventoryAdjustment_def default_model_fields)
  have b: "bidPrice (calculateOptimalQuotes ?m 3400 0 0)
             = max (3400 - (0.004 + 40 * ln (16 / 15)) / 2) 3230"
    by (simp add: quote_fields r a default_spread)
  have d: "askPrice (calculateOptimalQuotes ?m 3400 0 0)
             = min (3400 + (0.004 + 40 * ln (16 / 15)) / 2) 3570"
    by (simp add: quote_fields r a default_spread)
  have bounds: "2.584 \<le> spread (calculateOptimalQuotes ?m 3400 0 0)
      \<and> spread (calculateOptimalQuotes ?m 3400 0 0) \<le> 2.588
      \<and> 3398.706 \<le> bidPrice (calculateOptimalQuotes ?m 3400 0 0)
      \<and> bidPrice (calculateOptimalQuotes ?m 3400 0 0) \<le> 3398.708
      \<and> 3401.292 \<le> askPrice (calculateOptimalQuotes ?m 3400 0 0)
      \<and> askPrice (calculateOptimalQuotes ?m 3400 0 0) \<le> 3401.294"
    unfolding s b d using ln_16_15_lower ln_16_15_upper by (simp add: max_def min_def)
  show ?thesis
    using s n bounds by blast
qed

text \<open>
  The standalone calculator computes the full spread as
  \<open>\<gamma> \<sigma>\<^sup>2 t\<^sub>r\<^sub>e\<^sub>m + (2 / \<gamma>) ln (1 + \<gamma> / \<kappa>)\<close>, with \<open>\<kappa>\<close> at its default 1.5 in a quote and
  the time remaining as argument (a remaining time of \<open>0\<close> is replaced by \<open>T\<close>); at the same
  parameters it gives the figures 1.294, 3399.353 and 3400.647.
\<close>

lemma calculator_optimal_spread:
  assumes "timeRemaining \<noteq> 0"
  shows "calc_calculateOptimalSpread c (Some timeRemaining) (Some kappa)
           = c_gamma c * (c_sigma c)\<^sup>2 * timeRemaining + (2 / c_gamma c) * ln (1 + c_gamma c / kappa)"
  using assms by (simp add: calc_calculateOptimalSpread_def js_or_def Let_def)

lemma calculator_spread:
  "optimalSpread (calc_calculateOptimalQuotes c price0 inv0 timeRemaining)
     = c_gamma c * (c_sigma c)\<^sup>2 * js_or timeRemaining (c_T c)
       + (2 / c_gamma c) * ln (1 + c_gamma c / 1.5)"
  by (simp add: calc_calculateOptimalQuotes_def calc_calculateOptimalSpread_def Let_def)

lemma calculator_scenario:
  fixes inv0 :: calc_inventory
  assumes "ethBalance inv0 = targetBalance inv0"
  defines "cq \<equiv> calc_calculateOptimalQuotes (AvellanedaStoikovCalculator config) 3400 inv0 (Some 1)"
  shows "cq_reservationPrice cq = 3400"
    and "1.294 \<le> optimalSpread cq \<and> optimalSpread cq \<le> 1.296"
    and "3399.352 \<le> cq_bidPrice cq \<and> cq_bidPrice cq \<le> 3399.353"
    and "3400.647 \<le> cq_askPrice cq \<and> cq_askPrice cq \<le> 3400.648"
proof -
  have r: "cq_reservationPrice cq = 3400"
    using assms(1)
    by (simp add: cq_def calc_calculateOptimalQuotes_def calc_calculateReservationPrice_def Let_def)
  have s: "optimalSpread cq = 0.004 + 20 * ln (16 / 15)"
    by (simp add: cq_def calculator_spread AvellanedaStoikovCalculator_def config_def js_or_def
        power2_eq_square)
  have b: "cq_bidPrice cq = cq_reservationPrice cq - optimalSpread cq / 2"
    by (simp add: cq_def calc_calculateOptimalQuotes_def Let_def)
  have a: "cq_askPrice cq = cq_reservationPrice cq + optimalSpread cq / 2"
    by (simp add: cq_def calc_calculateOptimalQuotes_def Let_def)
  show "cq_reservationPrice cq = 3400" by (rule r)
  show "1.294 \<le> optimalSpread cq \<and> optimalSpread cq \<le> 1.296"
    unfolding s using ln_16_15_lower ln_16_15_upper by simp
  show "3399.352 \<le> cq_bidPrice cq \<and> cq_bidPrice cq \<le> 3399.353"
    unfolding b r s using ln_16_15_lower ln_16_15_upper by simp
  show "3400.647 \<le> cq_askPrice cq \<and> cq_askPrice cq \<le> 3400.648"
    unfolding a r s using ln_16_15_lower ln_16_15_upper by simp
qed

text \<open>
  C2. The quote brackets the reservation price when the inventory is at or above its
  target and the reservation price is within five per cent of the mid price (the band of
  the safety clamps): \<open>bidPrice \<le> reservationPrice \<le> askPrice\<close>.
\<close>

theorem quote_ordering:
  assumes "0 < gamma m" and "0 < k m" and "0 \<le> sigma m" and "t0 \<le> T m"
    and "q_target m \<le> q0"
    and "S0 * 0.95 \<le> calculateReservationPrice m S0 q0 t0"
    and "calculateReservationPrice m S0 q0 t0 \<le> S0 * 1.05"
  shows "bidPrice (calculateOptimalQuotes m S0 q0 t0) \<le> reservationPrice (calculateOptimalQuotes m S0 q0 t0)
         \<and> reservationPrice (calculateOptimalQuotes m S0 q0 t0) \<le> askPrice (calculateOptimalQuotes m S0 q0 t0)"
proof -
  have "0 \<le> calculateOptimalSpread m t0"
    using assms(1,2,4) by (rule calculateOptimalSpread_nonneg)
  moreover have "0 \<le> calculateInventoryAdjustment m q0"
    using assms(3,5) by (rule calculateInventoryAdjustment_nonneg)
  ultimately show ?thesis
    using assms(6,7) by (simp add: quote_fields)
qed

theorem quote_ordering_witness:
  "(0::real) < 0.1 \<and> (0::real) < 1.5 \<and> (0::real) \<le> 0.2 \<and> (0::real) \<le> 1 \<and> (0::real) \<le> 1
   \<and> 3400 * 0.95 \<le> calculateReservationPrice (AvellanedaStoikovModel default_params) 3400 1 0
   \<and> calculateReservationPrice (AvellanedaStoikovModel default_params) 3400 1 0 \<le> 3400 * 1.05
   \<and> bidPrice (calculateOptimalQuotes (AvellanedaStoikovModel default_params) 3400 1 0)
        \<le> reservationPrice (calculateOptimalQuotes (AvellanedaStoikovModel default_params) 3400 1 0)
   \<and> reservationPrice (calculateOptimalQuotes (AvellanedaStoikovModel default_params) 3400 1 0)
        \<le> askPrice (calculateOptimalQuotes (AvellanedaStoikovModel default_params) 3400 1 0)"
proof -
  let ?m = "AvellanedaStoikovModel default_params"
  have r: "calculateReservationPrice ?m 3400 1 0 = 3399.998"
    by (simp add: calculateReservationPrice_def Let_def default_model_fields power2_eq_square)
  show ?thesis
    using quote_ordering [of ?m 0 1 3400] by (simp add: default_model_fields r)
qed

text \<open>
  With an inventory of 10000 at mid price 100 the reservation price is 80, below the
  clamped bid of at least 95.
\<close>

theorem quote_ordering_counterexample:
  "(0::real) < gamma (AvellanedaStoikovModel default_params)
   \<and> 0 < k (AvellanedaStoikovModel default_params)
   \<and> 0 \<le> sigma (AvellanedaStoikovModel default_params)
   \<and> 0 \<le> T (AvellanedaStoikovModel default_params)
   \<and> reservationPrice (calculateOptimalQuotes (AvellanedaStoikovModel default_params) 100 10000 0) = 80
   \<and> 95 \<le> bidPrice (calculateOptimalQuotes (AvellanedaStoikovModel default_params) 100 10000 0)
   \<and> \<not> bidPrice (calculateOptimalQuotes (AvellanedaStoikovModel default_params) 100 10000 0)
        \<le> reservationPrice (calculateOptimalQuotes (AvellanedaStoikovModel default_params) 100 10000 0)"
proof -
  let ?m = "AvellanedaStoikovModel default_params"
  have r: "calculateReservationPrice ?m 100 10000 0 = 80"
    by (simp add: calculateReservationPrice_def Let_def default_model_fields power2_eq_square)
  show ?thesis
    by (simp add: quote_fields r default_model_fields)
qed

subsection \<open>Calls outside the time range\<close>

text \<open>
  The contract's \<open>computeQuote\<close> refuses an elapsed time beyond the duration, and answers
  within it.
\<close>

lemma computeQuote_guard:
  "T0 < t0 \<Longrightarrow> computeQuote c inv0 T0 t0 = Inl (Revert ''Elapsed time cannot exceed total duration'')"
  by (simp add: computeQuote_def)

lemma computeQuote_in_range:
  "computeQuote pushed_contract 1 1 0 = Inr (3399999399999999999994, 3399999800000000000006)"
  by (simp add: computeQuote_def pushed_contract_def and_then_def uint_mul_def uint_div_def
      uint_sub_def uint_add_def int_mul_def int_sub_def to_int256_def to_uint256_def Let_def)

text \<open>
  C3. The model's \<open>calculateOptimalQuotes\<close> checks no time range and has no failing
  branch. With the defaults (\<open>T = 1\<close>) a call at \<open>t = 2\<close>, after the horizon, returns a
  quote: the time to maturity is \<open>-1\<close>, so for an inventory of 1 the reservation price
  3400.002 lies above the mid price, and the risk term of the spread is negative. A call
  at \<open>t = -1\<close> returns a quote as well. The contract's \<open>computeQuote\<close> reverts on the same
  elapsed time and duration.
\<close>

theorem calculateOptimalQuotes_outside_range:
  "T (AvellanedaStoikovModel default_params) = 1
   \<and> reservationPrice (calculateOptimalQuotes (AvellanedaStoikovModel default_params) 3400 1 2)
       = 3400.002
   \<and> spread (calculateOptimalQuotes (AvellanedaStoikovModel default_params) 3400 1 2)
       = - 0.004 + 40 * ln (16 / 15)
   \<and> reservationPrice (calculateOptimalQuotes (AvellanedaStoikovModel default_params) 3400 1 (- 1))
       = 3399.996
   \<and> computeQuote pushed_contract 1 1 2
       = Inl (Revert ''Elapsed time cannot exceed total duration'')"
  by (simp add: quote_fields calculateReservationPrice_def calculateOptimalSpread_eq Let_def
      default_model_fields computeQuote_def power2_eq_square)

section \<open>Reservation price\<close>

text \<open>
  C4. For every mid price \<open>S\<close>, inventory \<open>q\<close> and time \<open>0 \<le> t \<le> T\<close> the reservation
  price of the quote is \<open>S - (\<gamma> \<sigma>\<^sup>2 (T - t) q) / 2\<close>; with \<open>q = 0\<close> and target inventory
  \<open>0\<close> the inventory adjustment is \<open>0\<close> and the reservation price is the mid price.
\<close>

theorem reservation_price_formula:
  assumes "0 \<le> t0" and "t0 \<le> T m"
  shows "reservationPrice (calculateOptimalQuotes m S0 q0 t0)
           = S0 - (gamma m * (sigma m)\<^sup>2 * (T m - t0) * q0) / 2
         \<and> (q0 = 0 \<and> q_target m = 0 \<longrightarrow>
              inventoryAdjustment (calculateOptimalQuotes m S0 q0 t0) = 0
              \<and> reservationPrice (calculateOptimalQuotes m S0 q0 t0) = S0)"
  by (simp add: calculateOptimalQuotes_def calculateReservationPrice_def
      calculateInventoryAdjustment_def Let_def)

theorem reservation_price_formula_witness:
  "(0::real) \<le> 0 \<and> 0 \<le> T (AvellanedaStoikovModel default_params)
   \<and> (0::real) = 0 \<and> q_target (AvellanedaStoikovModel default_params) = 0
   \<and> reservationPrice (calculateOptimalQuotes (AvellanedaStoikovModel default_params) 3400 0 0) = 3400
   \<and> inventoryAdjustment (calculateOptimalQuotes (AvellanedaStoikovModel default_params) 3400 0 0) = 0"
  using reservation_price_formula [of 0 "AvellanedaStoikovModel default_params" 3400 0]
  by (simp add: default_model_fields)

section \<open>Volatility estimation\<close>










section \<open>The risk manager\<close>

lemma validateOrder_state:
  "snd (validateOrder rm today now ord invt md) = resetDailyPnLIfNeeded rm today"
  by (simp add: validateOrder_def Let_def)

lemma validateOrder_outcome:
  "fst (validateOrder rm today now ord invt md)
     = (case first_violation (spec_constraints (resetDailyPnLIfNeeded rm today) now ord invt md) of
          None \<Rightarrow> Inr True | Some e \<Rightarrow> Inl e)"
  by (simp add: validateOrder_def spec_constraints_def validateMarketConditions_def
      validateSlippage_def Let_def not_le not_less)


lemma resetDailyPnLIfNeeded_fields:
  "maxDailyLoss (resetDailyPnLIfNeeded rm today) = maxDailyLoss rm"
  "maxPositionSize (resetDailyPnLIfNeeded rm today) = maxPositionSize rm"
  "maxOrderSize (resetDailyPnLIfNeeded rm today) = maxOrderSize rm"
  "maxSlippage (resetDailyPnLIfNeeded rm today) = maxSlippage rm"
  "maxDrawdown (resetDailyPnLIfNeeded rm today) = maxDrawdown rm"
  "currentPosition (resetDailyPnLIfNeeded rm today) = currentPosition rm"
  "peakValue (resetDailyPnLIfNeeded rm today) = peakValue rm"
  "emergencyStop (resetDailyPnLIfNeeded rm today) = emergencyStop rm"
  "tradingPaused (resetDailyPnLIfNeeded rm today) = tradingPaused rm"
  "isTradingAllowed (resetDailyPnLIfNeeded rm today) = isTradingAllowed rm"
  by (simp_all add: resetDailyPnLIfNeeded_def isTradingAllowed_def)

lemma resetDailyPnLIfNeeded_same_day:
  "today = lastResetDate rm \<Longrightarrow> resetDailyPnLIfNeeded rm today = rm"
  by (simp add: resetDailyPnLIfNeeded_def)

text \<open>
  C5. \<open>validateOrder\<close> first resets the daily PnL when the date has changed, then checks in
  this order: trading allowed, order size \<open>\<le>\<close> \<open>maxOrderSize\<close>, resulting position \<open>\<le>\<close>
  \<open>maxPositionSize\<close>, projected daily PnL \<open>\<ge>\<close> \<open>- maxDailyLoss\<close>, bid/ask spread \<open>\<le>\<close> 1%,
  age of the market data \<open>\<le>\<close> 30 s, no 24 h price change below -20%, expected slippage
  \<open>\<le>\<close> \<open>maxSlippage\<close>. It fails with the error of the first violated constraint. Whatever
  the outcome, the state it leaves is the state after the daily reset: \<open>dailyPnL\<close> and
  \<open>lastResetDate\<close> change when the date has changed, nothing changes when it has not, and
  the position, the peak value and the two flags never change. With \<open>maxOrderSize = 1\<close> and
  trading allowed, an order of size 1.5 is rejected for its size.
\<close>

theorem validateOrder_first_violation:
  "fst (validateOrder rm today now ord invt md)
     = (case first_violation (spec_constraints (resetDailyPnLIfNeeded rm today) now ord invt md) of
          None \<Rightarrow> Inr True | Some e \<Rightarrow> Inl e)
   \<and> snd (validateOrder rm today now ord invt md) = resetDailyPnLIfNeeded rm today
   \<and> (today = lastResetDate rm \<longrightarrow> snd (validateOrder rm today now ord invt md) = rm)
   \<and> currentPosition (snd (validateOrder rm today now ord invt md)) = currentPosition rm
   \<and> peakValue (snd (validateOrder rm today now ord invt md)) = peakValue rm
   \<and> emergencyStop (snd (validateOrder rm today now ord invt md)) = emergencyStop rm
   \<and> tradingPaused (snd (validateOrder rm today now ord invt md)) = tradingPaused rm
   \<and> (isTradingAllowed rm \<and> maxOrderSize rm = 1 \<and> totalSize ord = 1.5 \<longrightarrow>
        fst (validateOrder rm today now ord invt md) = Inl OrderSizeExceeded)"
proof -
  let ?res = "validateOrder rm today now ord invt md"
  have o: "fst ?res
     = (case first_violation (spec_constraints (resetDailyPnLIfNeeded rm today) now ord invt md) of
          None \<Rightarrow> Inr True | Some e \<Rightarrow> Inl e)"
    by (rule validateOrder_outcome)
  have s: "snd ?res = resetDailyPnLIfNeeded rm today"
    by (rule validateOrder_state)
  have d: "today = lastResetDate rm \<longrightarrow> snd ?res = rm"
    by (simp add: validateOrder_state resetDailyPnLIfNeeded_same_day)
  have c1: "currentPosition (snd ?res) = currentPosition rm"
    and c2: "peakValue (snd ?res) = peakValue rm"
    and c3: "emergencyStop (snd ?res) = emergencyStop rm"
    and c4: "tradingPaused (snd ?res) = tradingPaused rm"
    by (simp_all add: validateOrder_state resetDailyPnLIfNeeded_fields)
  have p: "isTradingAllowed rm \<and> maxOrderSize rm = 1 \<and> totalSize ord = 1.5 \<longrightarrow>
        fst ?res = Inl OrderSizeExceeded"
    by (simp add: validateOrder_def Let_def resetDailyPnLIfNeeded_fields)
  from o s d c1 c2 c3 c4 p show ?thesis
    by (intro conjI)
qed

lemma default_risk_fields:
  "maxDailyLoss (RiskManager default_risk_config d) = 1000"
  "maxPositionSize (RiskManager default_risk_config d) = 10"
  "maxOrderSize (RiskManager default_risk_config d) = 1"
  "maxSlippage (RiskManager default_risk_config d) = 0.005"
  "maxDrawdown (RiskManager default_risk_config d) = 0.1"
  "dailyPnL (RiskManager default_risk_config d) = 0"
  "currentPosition (RiskManager default_risk_config d) = 0"
  "peakValue (RiskManager default_risk_config d) = 0"
  "lastResetDate (RiskManager default_risk_config d) = d"
  "emergencyStop (RiskManager default_risk_config d) = False"
  "tradingPaused (RiskManager default_risk_config d) = False"
  by (simp_all add: RiskManager_def default_risk_config_def js_or_def)

text \<open>On the day of the last reset the rejected order leaves the risk manager as it was.\<close>

theorem validateOrder_first_violation_witness:
  "isTradingAllowed (RiskManager default_risk_config ''Mon Nov 02 2026'')
   \<and> maxOrderSize (RiskManager default_risk_config ''Mon Nov 02 2026'') = 1
   \<and> totalSize oversized_order = 1.5
   \<and> ''Mon Nov 02 2026'' = lastResetDate (RiskManager default_risk_config ''Mon Nov 02 2026'')
   \<and> validateOrder (RiskManager default_risk_config ''Mon Nov 02 2026'') ''Mon Nov 02 2026'' 2000
        oversized_order holdings calm_market
       = (Inl OrderSizeExceeded, RiskManager default_risk_config ''Mon Nov 02 2026'')"
proof -
  let ?rm = "RiskManager default_risk_config ''Mon Nov 02 2026''"
  note th = validateOrder_first_violation [of ?rm "''Mon Nov 02 2026''" 2000 oversized_order
      holdings calm_market]
  have h1: "isTradingAllowed ?rm"
    by (simp add: isTradingAllowed_def default_risk_fields)
  have h2: "maxOrderSize ?rm = 1"
    by (simp add: default_risk_fields)
  have h3: "totalSize oversized_order = 1.5"
    by (simp add: oversized_order_def)
  have h4: "''Mon Nov 02 2026'' = lastResetDate ?rm"
    by (simp add: default_risk_fields)
  have a: "fst (validateOrder ?rm ''Mon Nov 02 2026'' 2000 oversized_order holdings calm_market)
             = Inl OrderSizeExceeded"
    using th h1 h2 h3 by blast
  have b: "snd (validateOrder ?rm ''Mon Nov 02 2026'' 2000 oversized_order holdings calm_market) = ?rm"
    using th h4 by blast
  show ?thesis
    using h1 h2 h3 h4 a b by (simp add: prod_eq_iff)
qed

lemma updateRiskMetrics_small_loss:
  "updateRiskMetrics (RiskManager default_risk_config d) small_loss
     = (RiskManager default_risk_config d)
         \<lparr> dailyPnL := - 50, currentPosition := 0.1, peakValue := 27000 \<rparr>"
  by (simp add: updateRiskMetrics_def checkRiskLimits_def calculateDrawdown_def
      calculatePortfolioValue_def small_loss_def holdings_def default_risk_fields js_or_def Let_def)

text \<open>
  A risk manager that lost 50 on Sunday rejects the oversized order on Monday for its
  size, and its daily PnL is 0 afterwards: the failed validation changed the risk state.
\<close>

theorem validateOrder_counterexample:
  "dailyPnL (updateRiskMetrics (RiskManager default_risk_config ''Sun Nov 01 2026'') small_loss) = - 50
   \<and> maxOrderSize (updateRiskMetrics (RiskManager default_risk_config ''Sun Nov 01 2026'') small_loss) = 1
   \<and> totalSize oversized_order = 1.5
   \<and> fst (validateOrder (updateRiskMetrics (RiskManager default_risk_config ''Sun Nov 01 2026'') small_loss)
            ''Mon Nov 02 2026'' 2000 oversized_order holdings calm_market) = Inl OrderSizeExceeded
   \<and> dailyPnL (snd (validateOrder
            (updateRiskMetrics (RiskManager default_risk_config ''Sun Nov 01 2026'') small_loss)
            ''Mon Nov 02 2026'' 2000 oversized_order holdings calm_market)) = 0"
  by (simp add: updateRiskMetrics_small_loss validateOrder_def resetDailyPnLIfNeeded_def
      isTradingAllowed_def default_risk_fields oversized_order_def Let_def)

text \<open>Market data exactly 30 s old passes the staleness check.\<close>

lemma validateOrder_stale_boundary:
  "validateOrder (RiskManager default_risk_config d) d 31000
     (oversized_order \<lparr> totalSize := 0.5 \<rparr>) holdings calm_market
     = (Inr True, RiskManager default_risk_config d)"
  by (simp add: validateOrder_def resetDailyPnLIfNeeded_def isTradingAllowed_def
      default_risk_fields oversized_order_def calm_market_def holdings_def
      calculateNewPosition_def estimateOrderPnL_def validateMarketConditions_def
      validateSlippage_def js_or_def Let_def)

subsection \<open>The emergency stop\<close>

text \<open>No call other than \<open>resetEmergencyStop\<close> clears the emergency stop.\<close>

lemma checkRiskLimits_keeps_stop:
  "emergencyStop rm \<Longrightarrow> emergencyStop (checkRiskLimits rm pv)"
  by (simp add: checkRiskLimits_def activateEmergencyStop_def pauseTrading_def Let_def)

lemma updateRiskMetrics_keeps_stop:
  "emergencyStop rm \<Longrightarrow> emergencyStop (updateRiskMetrics rm er)"
  by (simp add: updateRiskMetrics_def Let_def checkRiskLimits_keeps_stop)

lemma risk_step_keeps_stop:
  "emergencyStop rm \<Longrightarrow> emergencyStop (risk_step rm c)"
  by (cases c)
    (simp_all add: validateOrder_state resetDailyPnLIfNeeded_fields updateRiskMetrics_keeps_stop
      activateEmergencyStop_def pauseTrading_def resumeTrading_def)

lemma risk_run_keeps_stop:
  "emergencyStop rm \<Longrightarrow> emergencyStop (risk_run rm cs)"
  by (induction cs arbitrary: rm) (simp_all add: risk_step_keeps_stop)

lemma updateRiskMetrics_breach:
  assumes "dailyPnL rm + js_or (er_pnl er) 0 < - maxDailyLoss rm"
  shows "emergencyStop (updateRiskMetrics rm er)"
  using assms
  by (simp add: updateRiskMetrics_def checkRiskLimits_def activateEmergencyStop_def Let_def)

text \<open>
  C6. Once \<open>updateRiskMetrics\<close> has seen \<open>dailyPnL < - maxDailyLoss\<close>, \<open>isTradingAllowed\<close>
  is false after every run of \<open>validateOrder\<close>, \<open>updateRiskMetrics\<close>,
  \<open>activateEmergencyStop\<close>, \<open>pauseTrading\<close> and \<open>resumeTrading\<close> calls, at whatever dates
  and times they are made; \<open>resetEmergencyStop\<close> makes it true again.
\<close>

theorem emergency_stop_latched:
  assumes "dailyPnL rm + js_or (er_pnl er) 0 < - maxDailyLoss rm"
  shows "\<not> isTradingAllowed (risk_run (updateRiskMetrics rm er) cs)
         \<and> isTradingAllowed (resetEmergencyStop (risk_run (updateRiskMetrics rm er) cs))"
proof -
  have "emergencyStop (risk_run (updateRiskMetrics rm er) cs)"
    using assms by (intro risk_run_keeps_stop updateRiskMetrics_breach)
  then show ?thesis
    by (simp add: isTradingAllowed_def resetEmergencyStop_def)
qed

text \<open>
  After a loss of 1500 against a limit of 1000, a validation on the next day resets the
  daily PnL, a further execution and \<open>resumeTrading\<close> follow, and trading is still blocked.
\<close>

theorem emergency_stop_latched_witness:
  "dailyPnL (RiskManager default_risk_config ''Sun Nov 01 2026'') + js_or (er_pnl big_loss) 0
     < - maxDailyLoss (RiskManager default_risk_config ''Sun Nov 01 2026'')
   \<and> dailyPnL (risk_run (updateRiskMetrics (RiskManager default_risk_config ''Sun Nov 01 2026'') big_loss)
        [ValidateOrder ''Mon Nov 02 2026'' 2000 oversized_order holdings calm_market,
         UpdateRiskMetrics small_loss, ResumeTrading]) = - 50
   \<and> \<not> isTradingAllowed
        (risk_run (updateRiskMetrics (RiskManager default_risk_config ''Sun Nov 01 2026'') big_loss)
           [ValidateOrder ''Mon Nov 02 2026'' 2000 oversized_order holdings calm_market,
            UpdateRiskMetrics small_loss, ResumeTrading])"
proof -
  let ?rm = "RiskManager default_risk_config ''Sun Nov 01 2026''"
  let ?cs = "[ValidateOrder ''Mon Nov 02 2026'' 2000 oversized_order holdings calm_market,
              UpdateRiskMetrics small_loss, ResumeTrading]"
  have h: "dailyPnL ?rm + js_or (er_pnl big_loss) 0 < - maxDailyLoss ?rm"
    by (simp add: default_risk_fields big_loss_def js_or_def)
  have d: "dailyPnL (risk_run (updateRiskMetrics ?rm big_loss) ?cs) = - 50"
    by (simp add: updateRiskMetrics_def checkRiskLimits_def activateEmergencyStop_def
        pauseTrading_def resumeTrading_def calculateDrawdown_def calculatePortfolioValue_def
        validateOrder_state resetDailyPnLIfNeeded_def big_loss_def small_loss_def holdings_def
        default_risk_fields js_or_def Let_def)
  show ?thesis
    using h d emergency_stop_latched [OF h, of ?cs] by simp
qed


section \<open>Rounding to the nearest double\<close>

text \<open>
  The rounding moves a number by at most half a unit in the last place, a relative
  \<open>2\<^sup>-\<^sup>5\<^sup>3\<close>; it leaves every double where it is, the whole numbers below \<open>2\<^sup>5\<^sup>3\<close> among
  them; and within a binade its values are multiples of the unit in the last place.
\<close>

lemma round_even_error: "\<bar>of_int (round_even y) - y\<bar> \<le> 1 / 2"
  unfolding round_even_def Let_def by (simp; linarith)

lemma round_even_of_int: "round_even (of_int z) = z"
  by (simp add: round_even_def)


lemma binade:
  assumes "x \<noteq> 0"
  shows "2 powr of_int (ulp_exp x + 52) \<le> \<bar>x\<bar>" and "\<bar>x\<bar> < 2 powr of_int (ulp_exp x + 53)"
proof -
  have pos: "0 < \<bar>x\<bar>" using assms by simp
  have "\<lfloor>log 2 \<bar>x\<bar>\<rfloor> = ulp_exp x + 52"
    by (simp add: ulp_exp_def)
  then have "2 powr of_int (ulp_exp x + 52) \<le> \<bar>x\<bar> \<and> \<bar>x\<bar> < 2 powr of_int (ulp_exp x + 52 + 1)"
    using floor_log_eq_powr_iff [of "\<bar>x\<bar>" 2 "ulp_exp x + 52"] pos by simp
  then show "2 powr of_int (ulp_exp x + 52) \<le> \<bar>x\<bar>" and "\<bar>x\<bar> < 2 powr of_int (ulp_exp x + 53)"
    by (simp_all add: add.assoc)
qed

lemma ulp_exp_eq:
  assumes "2 powr of_int E \<le> \<bar>x\<bar>" and "\<bar>x\<bar> < 2 powr of_int (E + 1)"
  shows "ulp_exp x = E - 52"
proof -
  have "(0::real) < 2 powr of_int E" by simp
  with assms(1) have pos: "0 < \<bar>x\<bar>" by linarith
  have "\<lfloor>log 2 \<bar>x\<bar>\<rfloor> = E"
    using floor_log_eq_powr_iff [of "\<bar>x\<bar>" 2 E] pos assms by simp
  then show ?thesis
    by (simp add: ulp_exp_def)
qed

lemma fl_0 [simp]: "fl 0 = 0"
  by (simp add: fl_def)

lemma fl_error: "\<bar>fl x - x\<bar> \<le> \<bar>x\<bar> / 2 ^ 53"
proof (cases "x = 0")
  case True
  then show ?thesis by simp
next
  case False
  define s :: real where "s = 2 powr of_int (ulp_exp x)"
  have s: "0 < s" by (simp add: s_def)
  have "fl x - x = (of_int (round_even (x / s)) - x / s) * s"
    using False s by (simp add: fl_def s_def algebra_simps)
  then have "\<bar>fl x - x\<bar> = \<bar>of_int (round_even (x / s)) - x / s\<bar> * s"
    using s by (simp add: abs_mult)
  also have "\<dots> \<le> 1 / 2 * s"
    using round_even_error [of "x / s"] s by (intro mult_right_mono) simp_all
  also have "\<dots> = 2 powr of_int (ulp_exp x + 52) / 2 ^ 53"
    by (simp add: s_def powr_add powr_realpow [symmetric])
  also have "\<dots> \<le> \<bar>x\<bar> / 2 ^ 53"
    using binade(1) [OF False] by (intro divide_right_mono) simp_all
  finally show ?thesis .
qed

lemma fl_bounds:
  assumes "0 \<le> x"
  shows "x * (1 - 1 / 2 ^ 53) \<le> fl x" and "fl x \<le> x * (1 + 1 / 2 ^ 53)"
proof -
  define w where "w = x / 2 ^ 53"
  have b: "\<bar>fl x - x\<bar> \<le> w"
    using fl_error [of x] assms by (simp add: w_def)
  have lo: "x * (1 - 1 / 2 ^ 53) = x - w"
    by (simp add: w_def algebra_simps)
  have hi: "x * (1 + 1 / 2 ^ 53) = x + w"
    by (simp add: w_def algebra_simps)
  from b have "x - w \<le> fl x" and "fl x \<le> x + w"
    by linarith+
  then show "x * (1 - 1 / 2 ^ 53) \<le> fl x" and "fl x \<le> x * (1 + 1 / 2 ^ 53)"
    by (simp_all only: lo hi)
qed

lemma fl_nonneg: "0 \<le> x \<Longrightarrow> 0 \<le> fl x"
proof -
  assume x: "0 \<le> x"
  have "0 \<le> x * (1 - 1 / 2 ^ 53)"
    using x by (intro mult_nonneg_nonneg) simp_all
  also have "\<dots> \<le> fl x"
    using x by (rule fl_bounds(1))
  finally show ?thesis .
qed

lemma fl_lattice:
  assumes "2 powr of_int E \<le> \<bar>x\<bar>" and "\<bar>x\<bar> < 2 powr of_int (E + 1)"
  shows "\<exists>z::int. fl x = of_int z * 2 powr of_int (E - 52)"
proof -
  have "(0::real) < 2 powr of_int E" by simp
  with assms(1) have "x \<noteq> 0" by auto
  moreover have "ulp_exp x = E - 52"
    using assms by (rule ulp_exp_eq)
  ultimately show ?thesis
    by (auto simp add: fl_def)
qed

lemma fl_repr:
  assumes "\<bar>m\<bar> < 2 ^ 53"
  shows "fl (of_int m * 2 powr of_int j) = of_int m * 2 powr of_int j"
proof (cases "m = 0")
  case True
  then show ?thesis by simp
next
  case False
  define E where "E = \<lfloor>log 2 \<bar>real_of_int m\<bar>\<rfloor>"
  have pos: "0 < \<bar>real_of_int m\<bar>" using False by simp
  have b: "2 powr of_int E \<le> \<bar>real_of_int m\<bar>" "\<bar>real_of_int m\<bar> < 2 powr of_int (E + 1)"
    using floor_log_eq_powr_iff [of "\<bar>real_of_int m\<bar>" 2 E] pos by (simp_all add: E_def)
  have "\<bar>real_of_int m\<bar> < 2 ^ 53"
    using assms by (metis of_int_abs of_int_less_numeral_power_cancel_iff)
  then have "\<bar>real_of_int m\<bar> < 2 powr of_int 53"
    by (simp add: powr_realpow [symmetric])
  with b(1) have "(2::real) powr of_int E < 2 powr of_int 53"
    by linarith
  then have "real_of_int E < real_of_int 53"
    by (rule powr_less_cancel) simp
  then have E53: "E < 53"
    by linarith
  define x where "x = real_of_int m * 2 powr of_int j"
  have ax: "\<bar>x\<bar> = \<bar>real_of_int m\<bar> * 2 powr of_int j"
    by (simp add: x_def abs_mult)
  have "2 powr of_int (E + j) \<le> \<bar>x\<bar>" "\<bar>x\<bar> < 2 powr of_int (E + j + 1)"
    using b by (simp_all add: ax powr_add add.commute add.left_commute)
  then have u: "ulp_exp x = E + j - 52"
    by (rule ulp_exp_eq)
  have x0: "x \<noteq> 0"
    using False by (simp add: x_def)
  define n where "n = nat (52 - E)"
  have n: "of_int (52 - E) = real n"
    using E53 by (simp add: n_def)
  define s :: real where "s = 2 powr of_int (E + j - 52)"
  have s: "0 < s" by (simp add: s_def)
  have pj: "(2::real) powr of_int j = 2 powr of_int (52 - E) * s"
    by (simp add: s_def powr_add [symmetric])
  have p2: "(2::real) powr of_int (52 - E) = 2 ^ n"
    by (simp only: n powr_realpow)
  have xs: "x = real_of_int (m * 2 ^ n) * s"
    unfolding x_def pj p2 by simp
  then have "x / s = real_of_int (m * 2 ^ n)"
    using s by simp
  then have "round_even (x / s) = m * 2 ^ n"
    by (simp only: round_even_of_int)
  then have "fl x = real_of_int (m * 2 ^ n) * s"
    using x0 by (simp add: fl_def u s_def)
  then have "fl x = x"
    using xs by simp
  then show ?thesis
    by (simp only: x_def)
qed

lemma fl_of_int: "\<bar>m\<bar> < 2 ^ 53 \<Longrightarrow> fl (of_int m) = of_int m"
  using fl_repr [of m 0] by simp


lemma fl_1 [simp]: "fl 1 = 1"
  using fl_of_int [of 1] by simp

lemma fl_of_nat: "n < 2 ^ 53 \<Longrightarrow> fl (real n) = real n"
  using fl_of_int [of "int n"] by simp

lemma fl_small_bounds:
  "fl 0.01 \<le> 1 / 10" "0 < fl 0.01" "0 < fl 0.005" "fl 0.005 < 1 / 100"
  using fl_bounds [of "0.01"] fl_bounds [of "0.005"] by simp_all

lemma fl_quarter: "fl (1 / 4) = 1 / 4"
  using fl_repr [of 1 "- 2"] by (simp add: powr_minus_divide)



section \<open>The execution plan\<close>

lemma default_executor_fields:
  "minOrderSize default_executor = fl 0.01"
  "ex_maxOrderSize default_executor = 1"
  "ex_maxSlippage default_executor = fl 0.005"
  "active default_executor = {}"
  "events default_executor = []"
  by (simp_all add: default_executor_def TWAPExecutor_def js_or_def)

lemma plan_loop_eq:
  "i \<le> n \<Longrightarrow> plan_loop ex clock tpp bs n qs i plan
     = plan @ map (\<lambda>j. plan_part ex (clock j) tpp bs qs j) [i..<n]"
proof (induction ex clock tpp bs n qs i plan rule: plan_loop.induct)
  case (1 ex clock timePerPart baseSize maxParts0 qs i plan)
  show ?case
  proof (cases "i < maxParts0")
    case True
    then show ?thesis
      using "1.IH" by (subst plan_loop.simps) (simp add: upt_conv_Cons)
  next
    case False
    then show ?thesis
      using "1.prems" by (subst plan_loop.simps) simp
  qed
qed

lemma calculateExecutionPlan_eq:
  "calculateExecutionPlan ex clock ts d n qs
     = map (\<lambda>j. plan_part ex (clock j) (fl (d / real n)) (fl (ts / real n)) qs j) [0..<n]"
  by (simp add: calculateExecutionPlan_def Let_def plan_loop_eq)


lemma plan_part_size_no_skew:
  "no_inventory_skew qs \<Longrightarrow>
   part_size (plan_part ex now tpp bs qs i) = max (minOrderSize ex) (min (ex_maxOrderSize ex) bs)"
  by (simp add: plan_part_def no_inventory_skew_def Let_def split: option.splits)

lemma plan_part_size_skew:
  "qs = Some qu \<Longrightarrow> oq_inventoryAdjustment qu = Some adj \<Longrightarrow> adj \<noteq> 0 \<Longrightarrow>
   part_size (plan_part ex now tpp bs qs i)
     = max (minOrderSize ex) (min (ex_maxOrderSize ex) (fl (bs * fl (1 + fl (adj * fl 0.1)))))"
  by (simp add: plan_part_def Let_def)

lemma nth_calculateExecutionPlan:
  "i < n \<Longrightarrow> calculateExecutionPlan ex clock ts d n qs ! i
     = plan_part ex (clock i) (fl (d / real n)) (fl (ts / real n)) qs i"
  by (simp add: calculateExecutionPlan_eq)

lemma length_calculateExecutionPlan:
  "length (calculateExecutionPlan ex clock ts d n qs) = n"
  by (simp add: calculateExecutionPlan_eq)





subsection \<open>The sum of the part sizes\<close>

lemma sum_list_const_map: "sum_list (map (\<lambda>j. c) xs) = real (length xs) * (c::real)"
  by (induction xs) (simp_all add: algebra_simps)

lemma foldl_fl_bounds:
  assumes "0 \<le> acc" and "\<forall>x\<in>set xs. 0 \<le> x"
  shows "(1 - 1 / 2 ^ 53) ^ length xs * (acc + sum_list xs)
           \<le> foldl (\<lambda>sum x. fl (sum + x)) acc xs
         \<and> foldl (\<lambda>sum x. fl (sum + x)) acc xs
           \<le> (1 + 1 / 2 ^ 53) ^ length xs * (acc + sum_list xs)"
  using assms
proof (induction xs arbitrary: acc)
  case Nil
  then show ?case by simp
next
  case (Cons x xs)
  define lo :: real where "lo = 1 - 1 / 2 ^ 53"
  define hi :: real where "hi = 1 + 1 / 2 ^ 53"
  have lo0: "0 \<le> lo" and hi0: "0 \<le> hi"
    by (simp_all add: lo_def hi_def)
  have x0: "0 \<le> x" and xs0: "\<forall>y\<in>set xs. 0 \<le> y"
    using Cons.prems(2) by simp_all
  have ax: "0 \<le> acc + x"
    using Cons.prems(1) x0 by simp
  have s0: "0 \<le> sum_list xs"
    using xs0 by (simp add: sum_list_nonneg)
  have f0: "0 \<le> fl (acc + x)"
    using ax by (rule fl_nonneg)
  have b: "(acc + x) * lo \<le> fl (acc + x)" "fl (acc + x) \<le> (acc + x) * hi"
    unfolding lo_def hi_def using ax by (rule fl_bounds)+
  have ih: "lo ^ length xs * (fl (acc + x) + sum_list xs)
              \<le> foldl (\<lambda>sum x. fl (sum + x)) (fl (acc + x)) xs"
    "foldl (\<lambda>sum x. fl (sum + x)) (fl (acc + x)) xs
              \<le> hi ^ length xs * (fl (acc + x) + sum_list xs)"
    using Cons.IH [OF f0 xs0] by (simp_all add: lo_def hi_def)
  have "sum_list xs * lo \<le> sum_list xs * 1"
    using s0 by (intro mult_left_mono) (simp_all add: lo_def)
  with b(1) have "lo * (acc + x + sum_list xs) \<le> fl (acc + x) + sum_list xs"
    by (simp add: algebra_simps)
  then have "lo ^ length xs * (lo * (acc + x + sum_list xs))
        \<le> lo ^ length xs * (fl (acc + x) + sum_list xs)"
    using lo0 by (intro mult_left_mono) simp_all
  with ih(1) have l: "lo ^ length (x # xs) * (acc + sum_list (x # xs))
        \<le> foldl (\<lambda>sum x. fl (sum + x)) acc (x # xs)"
    by (simp add: mult_ac add_ac)
  have "sum_list xs * 1 \<le> sum_list xs * hi"
    using s0 by (intro mult_left_mono) (simp_all add: hi_def)
  with b(2) have "fl (acc + x) + sum_list xs \<le> hi * (acc + x + sum_list xs)"
    by (simp add: algebra_simps)
  then have "hi ^ length xs * (fl (acc + x) + sum_list xs)
        \<le> hi ^ length xs * (hi * (acc + x + sum_list xs))"
    using hi0 by (intro mult_left_mono) simp_all
  with ih(2) have h: "foldl (\<lambda>sum x. fl (sum + x)) acc (x # xs)
        \<le> hi ^ length (x # xs) * (acc + sum_list (x # xs))"
    by (simp add: mult_ac add_ac)
  show ?case
    using l h by (simp only: lo_def hi_def) 
qed

lemma power_one_plus_le:
  assumes "0 \<le> x" and "real m * x \<le> 1"
  shows "(1 + x) ^ m \<le> 1 + 2 * (real m * x)"
proof -
  define y where "y = real m * x"
  have y: "0 \<le> y" "y \<le> 1"
    using assms by (simp_all add: y_def)
  have "1 + x \<le> exp x"
    by (rule exp_ge_add_one_self)
  then have "(1 + x) ^ m \<le> exp x ^ m"
    using assms(1) by (intro power_mono) simp_all
  also have "\<dots> = exp y"
    by (simp add: y_def exp_of_nat_mult)
  also have "\<dots> \<le> 1 + y + y\<^sup>2"
    using y by (rule exp_bound)
  also have "\<dots> \<le> 1 + 2 * y"
  proof -
    have "y * y \<le> 1 * y"
      using y by (intro mult_right_mono) simp_all
    then show ?thesis
      by (simp add: power2_eq_square)
  qed
  finally show ?thesis
    by (simp only: y_def)
qed

lemma power_one_minus_ge:
  assumes "0 \<le> x" and "x \<le> 1"
  shows "1 - real m * x \<le> (1 - x) ^ m"
  using Bernoulli_inequality [of "- x" m] assms by simp

lemma reduce_sum_const:
  assumes "0 < ts" and "1 \<le> n" and "n < 2 ^ 52"
  shows "\<bar>reduce_sum (map (\<lambda>j. fl (ts / real n)) [0..<n]) - ts\<bar> \<le> real (n + 1) * ts / 2 ^ 52"
proof -
  define c where "c = fl (ts / real n)"
  define lo :: real where "lo = 1 - 1 / 2 ^ 53"
  define hi :: real where "hi = 1 + 1 / 2 ^ 53"
  define r where "r = reduce_sum (map (\<lambda>j. c) [0..<n])"
  have n0: "0 < real n"
    using assms(2) by simp
  have tn: "0 \<le> ts / real n"
    using assms(1) by simp
  have c0: "0 \<le> c"
    unfolding c_def using tn by (rule fl_nonneg)
  have cb: "ts / real n * lo \<le> c" "c \<le> ts / real n * hi"
    unfolding c_def lo_def hi_def using tn by (rule fl_bounds)+
  have nc: "ts * lo \<le> real n * c" "real n * c \<le> ts * hi"
  proof -
    have "real n * (ts / real n * lo) \<le> real n * c"
      using cb(1) by (intro mult_left_mono) simp_all
    then show "ts * lo \<le> real n * c"
      using n0 by simp
    have "real n * c \<le> real n * (ts / real n * hi)"
      using cb(2) by (intro mult_left_mono) simp_all
    then show "real n * c \<le> ts * hi"
      using n0 by simp
  qed
  have f: "lo ^ n * (real n * c) \<le> r" "r \<le> hi ^ n * (real n * c)"
    using foldl_fl_bounds [of 0 "map (\<lambda>j. c) [0..<n]"] c0
    by (simp_all add: r_def reduce_sum_def sum_list_const_map lo_def hi_def)
  have lo0: "0 \<le> lo" and hi0: "0 \<le> hi"
    by (simp_all add: lo_def hi_def)
  have "lo ^ n * (ts * lo) \<le> lo ^ n * (real n * c)"
    using nc(1) lo0 by (intro mult_left_mono) simp_all
  with f(1) have l1: "lo ^ Suc n * ts \<le> r"
    by (simp add: mult_ac)
  have "hi ^ n * (real n * c) \<le> hi ^ n * (ts * hi)"
    using nc(2) hi0 by (intro mult_left_mono) simp_all
  with f(2) have h1: "r \<le> hi ^ Suc n * ts"
    by (simp add: mult_ac)
  have m: "real (Suc n) * (1 / 2 ^ 53) \<le> 1"
  proof -
    have "Suc n \<le> 2 ^ 52"
      using assms(3) by simp
    then have "real (Suc n) \<le> real (2 ^ 52)"
      by (simp only: of_nat_le_iff)
    then show ?thesis
      by simp
  qed
  have "hi ^ Suc n \<le> 1 + 2 * (real (Suc n) * (1 / 2 ^ 53))"
    unfolding hi_def using m by (intro power_one_plus_le) simp_all
  also have "\<dots> = 1 + real (Suc n) / 2 ^ 52"
    by simp
  finally have hp: "hi ^ Suc n \<le> 1 + real (Suc n) / 2 ^ 52" .
  have "1 - real (Suc n) * (1 / 2 ^ 53) \<le> lo ^ Suc n"
    unfolding lo_def by (intro power_one_minus_ge) simp_all
  moreover have "real (Suc n) * (1 / 2 ^ 53) \<le> real (Suc n) / 2 ^ 52"
    by simp
  ultimately have lp: "1 - real (Suc n) / 2 ^ 52 \<le> lo ^ Suc n"
    by linarith
  have "hi ^ Suc n * ts \<le> (1 + real (Suc n) / 2 ^ 52) * ts"
    using hp assms(1) by (intro mult_right_mono) simp_all
  with h1 have h2: "r \<le> ts + real (Suc n) * ts / 2 ^ 52"
    by (simp add: algebra_simps)
  have "(1 - real (Suc n) / 2 ^ 52) * ts \<le> lo ^ Suc n * ts"
    using lp assms(1) by (intro mult_right_mono) simp_all
  with l1 have l2: "ts - real (Suc n) * ts / 2 ^ 52 \<le> r"
    by (simp add: algebra_simps)
  from l2 h2 have "\<bar>r - ts\<bar> \<le> real (Suc n) * ts / 2 ^ 52"
    by linarith
  then show ?thesis
    by (simp add: r_def c_def)
qed

lemma sum_list_const:
  assumes "0 < ts" and "1 \<le> n"
  shows "\<bar>real n * fl (ts / real n) - ts\<bar> \<le> ts / 2 ^ 53"
proof -
  have n0: "0 < real n"
    using assms(2) by simp
  have "real n * fl (ts / real n) - ts = real n * (fl (ts / real n) - ts / real n)"
    using n0 by (simp add: algebra_simps)
  then have "\<bar>real n * fl (ts / real n) - ts\<bar> = real n * \<bar>fl (ts / real n) - ts / real n\<bar>"
    by (simp add: abs_mult)
  also have "\<dots> \<le> real n * (\<bar>ts / real n\<bar> / 2 ^ 53)"
    using fl_error [of "ts / real n"] by (intro mult_left_mono) simp_all
  also have "\<dots> = ts / 2 ^ 53"
    using n0 assms(1) by simp
  finally show ?thesis .
qed

lemma plan_sizes_no_skew:
  "no_inventory_skew qs \<Longrightarrow>
   map part_size (calculateExecutionPlan ex clock ts d n qs)
     = map (\<lambda>j. max (minOrderSize ex) (min (ex_maxOrderSize ex) (fl (ts / real n)))) [0..<n]"
  by (simp add: calculateExecutionPlan_eq comp_def plan_part_size_no_skew)

lemma plan_sizes_skew:
  "qs = Some qu \<Longrightarrow> oq_inventoryAdjustment qu = Some adj \<Longrightarrow> adj \<noteq> 0 \<Longrightarrow>
   map part_size (calculateExecutionPlan ex clock ts d n qs)
     = map (\<lambda>j. max (minOrderSize ex) (min (ex_maxOrderSize ex)
         (fl (fl (ts / real n) * fl (1 + fl (adj * fl 0.1)))))) [0..<n]"
  by (simp add: calculateExecutionPlan_eq comp_def plan_part_size_skew)

text \<open>
  C8. Every part of a plan has the same size, so the sizes add up to \<open>maxParts\<close> times the
  clamped part size: of the rounded \<open>totalSize / maxParts\<close> without skew, of that times
  \<open>1 + inventoryAdjustment * 0.1\<close> (each operation rounded) with skew. Without skew, for
  \<open>totalSize > 0\<close>, \<open>1 \<le> maxParts < 2\<^sup>5\<^sup>2\<close> and a rounded \<open>totalSize / maxParts\<close> within
  \<open>[minOrderSize, maxOrderSize]\<close>, the exact sum of the sizes is within
  \<open>totalSize / 2\<^sup>5\<^sup>3\<close> of \<open>totalSize\<close> and the sum that \<open>reduce\<close> computes within
  \<open>(maxParts + 1) * totalSize / 2\<^sup>5\<^sup>2\<close>; both are within one minimum lot when this bound
  is at most \<open>minOrderSize\<close>.
\<close>

theorem execution_plan_total:
  "(no_inventory_skew qs \<longrightarrow>
      sum_list (map part_size (calculateExecutionPlan ex clock ts d n qs))
        = real n * max (minOrderSize ex) (min (ex_maxOrderSize ex) (fl (ts / real n))))
   \<and> (qs = Some qu \<and> oq_inventoryAdjustment qu = Some adj \<and> adj \<noteq> 0 \<longrightarrow>
        sum_list (map part_size (calculateExecutionPlan ex clock ts d n qs))
          = real n * max (minOrderSize ex) (min (ex_maxOrderSize ex)
              (fl (fl (ts / real n) * fl (1 + fl (adj * fl 0.1))))))
   \<and> (no_inventory_skew qs \<and> 0 < ts \<and> 1 \<le> n \<and> n < 2 ^ 52
        \<and> minOrderSize ex \<le> fl (ts / real n) \<and> fl (ts / real n) \<le> ex_maxOrderSize ex \<longrightarrow>
        \<bar>sum_list (map part_size (calculateExecutionPlan ex clock ts d n qs)) - ts\<bar>
          \<le> ts / 2 ^ 53
        \<and> \<bar>reduce_sum (map part_size (calculateExecutionPlan ex clock ts d n qs)) - ts\<bar>
          \<le> real (n + 1) * ts / 2 ^ 52
        \<and> (real (n + 1) * ts / 2 ^ 52 \<le> minOrderSize ex \<longrightarrow>
             \<bar>sum_list (map part_size (calculateExecutionPlan ex clock ts d n qs)) - ts\<bar>
               \<le> minOrderSize ex
             \<and> \<bar>reduce_sum (map part_size (calculateExecutionPlan ex clock ts d n qs)) - ts\<bar>
               \<le> minOrderSize ex))"
proof -
  let ?plan = "calculateExecutionPlan ex clock ts d n qs"
  have a: "sum_list (map part_size ?plan)
        = real n * max (minOrderSize ex) (min (ex_maxOrderSize ex) (fl (ts / real n)))"
    if "no_inventory_skew qs"
    using that by (simp add: plan_sizes_no_skew sum_list_const_map)
  have b: "sum_list (map part_size ?plan)
          = real n * max (minOrderSize ex) (min (ex_maxOrderSize ex)
              (fl (fl (ts / real n) * fl (1 + fl (adj * fl 0.1)))))"
    if "qs = Some qu" "oq_inventoryAdjustment qu = Some adj" "adj \<noteq> 0"
    using that by (simp add: plan_sizes_skew sum_list_const_map)
  have c: "\<bar>sum_list (map part_size ?plan) - ts\<bar> \<le> ts / 2 ^ 53
        \<and> \<bar>reduce_sum (map part_size ?plan) - ts\<bar> \<le> real (n + 1) * ts / 2 ^ 52
        \<and> (real (n + 1) * ts / 2 ^ 52 \<le> minOrderSize ex \<longrightarrow>
             \<bar>sum_list (map part_size ?plan) - ts\<bar> \<le> minOrderSize ex
             \<and> \<bar>reduce_sum (map part_size ?plan) - ts\<bar> \<le> minOrderSize ex)"
    if s: "no_inventory_skew qs" and ts: "0 < ts" and n: "1 \<le> n" "n < 2 ^ 52"
      and lo: "minOrderSize ex \<le> fl (ts / real n)" and hi: "fl (ts / real n) \<le> ex_maxOrderSize ex"
  proof -
    have cl: "max (minOrderSize ex) (min (ex_maxOrderSize ex) (fl (ts / real n))) = fl (ts / real n)"
      using lo hi by (simp add: max_def min_def)
    have m: "map part_size ?plan = map (\<lambda>j. fl (ts / real n)) [0..<n]"
      using s by (simp only: plan_sizes_no_skew cl)
    have e1: "\<bar>sum_list (map part_size ?plan) - ts\<bar> \<le> ts / 2 ^ 53"
      using sum_list_const [OF ts n(1)] by (simp add: m sum_list_const_map)
    have e2: "\<bar>reduce_sum (map part_size ?plan) - ts\<bar> \<le> real (n + 1) * ts / 2 ^ 52"
      using reduce_sum_const [OF ts n] by (simp only: m)
    have "ts / 2 ^ 53 \<le> real (n + 1) * ts / 2 ^ 52"
    proof -
      have "1 * ts \<le> real (n + 1) * ts"
        using ts by (intro mult_right_mono) simp_all
      then have "ts / 2 ^ 52 \<le> real (n + 1) * ts / 2 ^ 52"
        by (simp add: divide_right_mono)
      moreover have "ts / 2 ^ 53 \<le> ts / 2 ^ 52"
        using ts by simp
      ultimately show ?thesis
        by linarith
    qed
    with e1 e2 show ?thesis
      by linarith
  qed
  show ?thesis
    using a b c by blast
qed

text \<open>A skew of 0.5 on ten parts for a total of 1: each part is between 0.104 and 0.106.\<close>

lemma skewed_part_bounds:
  "104 / 1000 \<le> fl (fl (1 / 10) * fl (1 + fl (0.5 * fl 0.1)))"
  "fl (fl (1 / 10) * fl (1 + fl (0.5 * fl 0.1))) \<le> 106 / 1000"
proof -
  define x1 where "x1 = fl (1 / 10)"
  define x2 where "x2 = fl (0.5 * x1)"
  define x3 where "x3 = fl (1 + x2)"
  define x4 where "x4 = x1 * x3"
  have b1: "999 / 10000 \<le> x1" "x1 \<le> 1001 / 10000"
    unfolding x1_def using fl_bounds [of "1 / 10"] by simp_all
  then have p1: "0 \<le> 0.5 * x1"
    by simp
  have "0.5 * x1 * (1 - 1 / 2 ^ 53) \<le> x2" "x2 \<le> 0.5 * x1 * (1 + 1 / 2 ^ 53)"
    unfolding x2_def using p1 by (rule fl_bounds)+
  with b1 have b2: "499 / 10000 \<le> x2" "x2 \<le> 501 / 10000"
    by simp_all
  then have p2: "0 \<le> 1 + x2"
    by simp
  have "(1 + x2) * (1 - 1 / 2 ^ 53) \<le> x3" "x3 \<le> (1 + x2) * (1 + 1 / 2 ^ 53)"
    unfolding x3_def using p2 by (rule fl_bounds)+
  with b2 have b3: "10498 / 10000 \<le> x3" "x3 \<le> 10502 / 10000"
    by (simp_all add: algebra_simps)
  have "999 / 10000 * (10498 / 10000) \<le> x1 * x3"
    using b1 b3 by (intro mult_mono) simp_all
  moreover have "x1 * x3 \<le> 1001 / 10000 * (10502 / 10000)"
    using b1 b3 by (intro mult_mono) simp_all
  ultimately have b4: "1048 / 10000 \<le> x4" "x4 \<le> 1052 / 10000"
    by (simp_all add: x4_def)
  then have p4: "0 \<le> x4"
    by simp
  have "x4 * (1 - 1 / 2 ^ 53) \<le> fl x4" "fl x4 \<le> x4 * (1 + 1 / 2 ^ 53)"
    using p4 by (rule fl_bounds)+
  with b4 have "104 / 1000 \<le> fl x4" "fl x4 \<le> 106 / 1000"
    by simp_all
  then show "104 / 1000 \<le> fl (fl (1 / 10) * fl (1 + fl (0.5 * fl 0.1)))"
    "fl (fl (1 / 10) * fl (1 + fl (0.5 * fl 0.1))) \<le> 106 / 1000"
    by (simp_all only: x4_def x3_def x2_def x1_def)
qed

text \<open>
  Ten parts for a total of 1 with the default limits: the sum is within \<open>2\<^sup>-\<^sup>5\<^sup>3\<close> of 1
  taken exactly and within \<open>11 / 2\<^sup>5\<^sup>2\<close> of 1 as \<open>reduce\<close> computes it, both far below the
  minimum lot. With a skew of 0.5 the sum is ten times the skewed part size.
\<close>

theorem execution_plan_total_witness:
  "no_inventory_skew None \<and> (0::real) < 1 \<and> (1::nat) \<le> 10 \<and> (10::nat) < 2 ^ 52
   \<and> minOrderSize default_executor \<le> fl (1 / 10)
   \<and> fl (1 / 10) \<le> ex_maxOrderSize default_executor
   \<and> 11 / 2 ^ 52 \<le> minOrderSize default_executor
   \<and> sum_list (map part_size (calculateExecutionPlan default_executor (\<lambda>i. 1000) 1 300000 10 None))
       = 10 * fl (1 / 10)
   \<and> \<bar>sum_list (map part_size (calculateExecutionPlan default_executor (\<lambda>i. 1000) 1 300000 10 None))
        - 1\<bar> \<le> 1 / 2 ^ 53
   \<and> \<bar>reduce_sum (map part_size (calculateExecutionPlan default_executor (\<lambda>i. 1000) 1 300000 10 None))
        - 1\<bar> \<le> 11 / 2 ^ 52
   \<and> \<bar>sum_list (map part_size (calculateExecutionPlan default_executor (\<lambda>i. 1000) 1 300000 10 None))
        - 1\<bar> \<le> minOrderSize default_executor
   \<and> \<bar>reduce_sum (map part_size (calculateExecutionPlan default_executor (\<lambda>i. 1000) 1 300000 10 None))
        - 1\<bar> \<le> minOrderSize default_executor
   \<and> sum_list (map part_size (calculateExecutionPlan default_executor (\<lambda>i. 1000) 1 300000 10
        (Some \<lparr> oq_inventoryAdjustment = Some 0.5, oq_reservationPrice = 3400 \<rparr>)))
       = 10 * fl (fl (1 / 10) * fl (1 + fl (0.5 * fl 0.1)))"
proof -
  let ?qu = "\<lparr> oq_inventoryAdjustment = Some 0.5, oq_reservationPrice = 3400 \<rparr>"
  let ?plan = "calculateExecutionPlan default_executor (\<lambda>i. 1000) 1 300000 10 None"
  let ?skewed = "calculateExecutionPlan default_executor (\<lambda>i. 1000) 1 300000 10 (Some ?qu)"
  define c where "c = fl (fl (1 / 10) * fl (1 + fl (0.5 * fl 0.1)))"
  have r: "real (10::nat) = 10" "real ((10::nat) + 1) * 1 / 2 ^ 52 = 11 / 2 ^ 52"
    by simp_all
  have s: "no_inventory_skew None"
    by (simp add: no_inventory_skew_def)
  have n: "(0::real) < 1" "(1::nat) \<le> 10" "(10::nat) < 2 ^ 52"
    by simp_all
  have lo: "minOrderSize default_executor \<le> fl (1 / 10)"
    using fl_bounds [of "0.01"] fl_bounds [of "1 / 10"] by (simp add: default_executor_fields)
  have hi: "fl (1 / 10) \<le> ex_maxOrderSize default_executor"
    using fl_bounds [of "1 / 10"] by (simp add: default_executor_fields)
  have lot: "11 / 2 ^ 52 \<le> minOrderSize default_executor"
    using fl_bounds [of "0.01"] by (simp add: default_executor_fields)
  have cl: "max (minOrderSize default_executor) (min (ex_maxOrderSize default_executor) (fl (1 / 10)))
      = fl (1 / 10)"
    using lo hi by (simp add: max_def min_def)
  note th = execution_plan_total [of None default_executor "\<lambda>i. 1000" 1 300000 10]
  from th s have "sum_list (map part_size ?plan)
      = real (10::nat) * max (minOrderSize default_executor)
          (min (ex_maxOrderSize default_executor) (fl (1 / real (10::nat))))"
    by blast
  then have a: "sum_list (map part_size ?plan) = 10 * fl (1 / 10)"
    by (simp only: r cl)
  from th s n lo hi lot
  have "\<bar>sum_list (map part_size ?plan) - 1\<bar> \<le> 1 / 2 ^ 53
      \<and> \<bar>reduce_sum (map part_size ?plan) - 1\<bar> \<le> real ((10::nat) + 1) * 1 / 2 ^ 52
      \<and> \<bar>sum_list (map part_size ?plan) - 1\<bar> \<le> minOrderSize default_executor
      \<and> \<bar>reduce_sum (map part_size ?plan) - 1\<bar> \<le> minOrderSize default_executor"
    unfolding r by blast
  then have b: "\<bar>sum_list (map part_size ?plan) - 1\<bar> \<le> 1 / 2 ^ 53"
    "\<bar>reduce_sum (map part_size ?plan) - 1\<bar> \<le> 11 / 2 ^ 52"
    "\<bar>sum_list (map part_size ?plan) - 1\<bar> \<le> minOrderSize default_executor"
    "\<bar>reduce_sum (map part_size ?plan) - 1\<bar> \<le> minOrderSize default_executor"
    by (simp_all only: r)
  have q: "Some ?qu = Some ?qu \<and> oq_inventoryAdjustment ?qu = Some 0.5 \<and> (0.5::real) \<noteq> 0"
    by simp
  have cb: "fl 0.01 \<le> c" "c \<le> 1"
    using skewed_part_bounds fl_bounds [of "0.01"] by (simp_all add: c_def)
  then have clc: "max (minOrderSize default_executor) (min (ex_maxOrderSize default_executor) c) = c"
    by (simp add: default_executor_fields max_def min_def)
  have "sum_list (map part_size ?skewed)
          = real (10::nat) * max (minOrderSize default_executor)
              (min (ex_maxOrderSize default_executor)
                 (fl (fl (1 / real (10::nat)) * fl (1 + fl (0.5 * fl 0.1)))))"
    using execution_plan_total [of "Some ?qu" default_executor "\<lambda>i. 1000" 1 300000 10 ?qu "0.5"] q
    by blast
  then have "sum_list (map part_size ?skewed) = 10 * c"
    by (simp only: r c_def [symmetric] clc)
  then have d: "sum_list (map part_size ?skewed) = 10 * fl (fl (1 / 10) * fl (1 + fl (0.5 * fl 0.1)))"
    by (simp only: c_def)
  show ?thesis
    using s n lo hi lot a b d by (intro conjI)
qed

text \<open>
  A total of 0.05 in ten parts: each part is raised to the minimum lot 0.01, so the sum
  is ten lots, about 0.1, and misses the total by about five lots, however it is added
  up. A total of 1 in ten parts with a skew of 0.5: the sum is about 1.05, five lots off.
\<close>

theorem execution_plan_total_counterexample:
  "no_inventory_skew None \<and> 0 < fl 0.05 \<and> (1::nat) \<le> 10
   \<and> sum_list (map part_size
        (calculateExecutionPlan default_executor (\<lambda>i. 1000) (fl 0.05) 300000 10 None))
       = 10 * minOrderSize default_executor
   \<and> \<not> \<bar>sum_list (map part_size
            (calculateExecutionPlan default_executor (\<lambda>i. 1000) (fl 0.05) 300000 10 None))
          - fl 0.05\<bar> \<le> minOrderSize default_executor
   \<and> \<not> \<bar>reduce_sum (map part_size
            (calculateExecutionPlan default_executor (\<lambda>i. 1000) (fl 0.05) 300000 10 None))
          - fl 0.05\<bar> \<le> minOrderSize default_executor
   \<and> \<not> \<bar>sum_list (map part_size
            (calculateExecutionPlan default_executor (\<lambda>i. 1000) 1 300000 10
               (Some \<lparr> oq_inventoryAdjustment = Some 0.5, oq_reservationPrice = 3400 \<rparr>)))
          - 1\<bar> \<le> minOrderSize default_executor"
proof -
  let ?plan = "calculateExecutionPlan default_executor (\<lambda>i. 1000) (fl 0.05) 300000 10 None"
  let ?qu = "\<lparr> oq_inventoryAdjustment = Some 0.5, oq_reservationPrice = 3400 \<rparr>"
  let ?skewed = "calculateExecutionPlan default_executor (\<lambda>i. 1000) 1 300000 10 (Some ?qu)"
  define lot where "lot = fl 0.01"
  define ts where "ts = fl 0.05"
  define c where "c = fl (fl (1 / 10) * fl (1 + fl (0.5 * fl 0.1)))"
  have s: "no_inventory_skew None"
    by (simp add: no_inventory_skew_def)
  have lb: "999 / 100000 \<le> lot" "lot \<le> 1001 / 100000"
    unfolding lot_def using fl_bounds [of "0.01"] by simp_all
  have tb: "499 / 10000 \<le> ts" "ts \<le> 501 / 10000"
    unfolding ts_def using fl_bounds [of "0.05"] by simp_all
  then have t0: "0 \<le> ts / 10"
    by simp
  have "fl (ts / 10) \<le> ts / 10 * (1 + 1 / 2 ^ 53)"
    using t0 by (rule fl_bounds)
  with tb lb have small: "fl (ts / 10) \<le> lot"
    by simp
  then have cl: "max lot (min 1 (fl (ts / 10))) = lot"
    using lb by (simp add: max_def min_def)
  have m: "map part_size ?plan = map (\<lambda>j. lot) [0..<10]"
    using cl by (simp add: plan_sizes_no_skew [OF s] default_executor_fields lot_def ts_def)
  have a: "sum_list (map part_size ?plan) = 10 * lot"
    unfolding m by (simp add: sum_list_const_map)
  have "(1 - 1 / 2 ^ 53) ^ length (map (\<lambda>j. lot) [0..<10]) * (0 + sum_list (map (\<lambda>j. lot) [0..<10]))
      \<le> foldl (\<lambda>sum x. fl (sum + x)) 0 (map (\<lambda>j. lot) [0..<10])"
    using foldl_fl_bounds [of 0 "map (\<lambda>j. lot) [0..<10]"] lb by simp
  then have "(1 - 1 / 2 ^ 53) ^ 10 * (10 * lot) \<le> reduce_sum (map part_size ?plan)"
    unfolding m reduce_sum_def by (simp add: sum_list_const_map)
  moreover have "(99 / 100) * (10 * lot) \<le> (1 - 1 / 2 ^ 53) ^ 10 * (10 * lot)"
  proof (rule mult_right_mono)
    have "1 - real 10 * (1 / 2 ^ 53) \<le> (1 - 1 / 2 ^ 53) ^ 10"
      by (rule power_one_minus_ge) simp_all
    moreover have "(99::real) / 100 \<le> 1 - real 10 * (1 / 2 ^ 53)"
      by simp
    ultimately show "(99::real) / 100 \<le> (1 - 1 / 2 ^ 53) ^ 10"
      by (rule order_trans [rotated])
    show "0 \<le> 10 * lot"
      using lb by simp
  qed
  ultimately have rs: "99 / 10 * lot \<le> reduce_sum (map part_size ?plan)"
    by simp
  have n1: "\<not> \<bar>sum_list (map part_size ?plan) - ts\<bar> \<le> lot"
    using a lb tb by simp
  have n2: "\<not> \<bar>reduce_sum (map part_size ?plan) - ts\<bar> \<le> lot"
    using rs lb tb by linarith
  have cb: "104 / 1000 \<le> c" "c \<le> 106 / 1000"
    unfolding c_def by (rule skewed_part_bounds)+
  then have clc: "max lot (min 1 c) = c"
    using lb by (simp add: max_def min_def)
  have r: "real (10::nat) = 10"
    by simp
  have "map part_size ?skewed
      = map (\<lambda>j. max (minOrderSize default_executor) (min (ex_maxOrderSize default_executor)
          (fl (fl (1 / real (10::nat)) * fl (1 + fl (0.5 * fl 0.1)))))) [0..<10]"
    by (rule plan_sizes_skew [of _ ?qu]) simp_all
  then have ms: "map part_size ?skewed = map (\<lambda>j. c) [0..<10]"
    by (simp only: r default_executor_fields lot_def [symmetric] c_def [symmetric] clc)
  have "sum_list (map part_size ?skewed) = 10 * c"
    unfolding ms by (simp add: sum_list_const_map)
  with cb lb have n3: "\<not> \<bar>sum_list (map part_size ?skewed) - 1\<bar> \<le> lot"
    by simp
  have "0 < ts"
    using tb by simp
  then show ?thesis
    using s a n1 n2 n3 by (simp add: default_executor_fields lot_def ts_def)
qed


section \<open>Failure of a part\<close>

lemma executePart_fail:
  assumes "oid \<in> active ex" and "txResult_of env ex oid i = Inl msg"
  shows "executePart env ex oid i
           = (Inl msg, update_part ex oid i (\<lambda>part. part \<lparr> status := Failed, part_error := Some msg \<rparr>))"
  using assms by (simp add: executePart_def activeOrders_get_def)

lemma executePart_ok:
  assumes "oid \<in> active ex" and "txResult_of env ex oid i = Inr tx"
  shows "fst (executePart env ex oid i) = Inr ()"
    and "active (snd (executePart env ex oid i)) = active ex"
    and "ex_maxSlippage (snd (executePart env ex oid i)) = ex_maxSlippage ex"
    and "direction (store (snd (executePart env ex oid i)) oid) = direction (store ex oid)"
    and "executedParts (store (snd (executePart env ex oid i)) oid) = executedParts (store ex oid)"
    and "executionPlan (store (snd (executePart env ex oid i)) oid)
           = (executionPlan (store ex oid))
               [i := (executionPlan (store ex oid) ! i)
                       \<lparr> status := Executed,
                         executedPrice := Some (tx_price tx),
                         executedSize_p := Some (tx_size tx),
                         gasUsed := Some (tx_gasUsed tx),
                         txHash := Some (tx_txHash tx) \<rparr>]"
  using assms
  by (simp_all add: executePart_def activeOrders_get_def update_part_def update_order_def Let_def)

lemma txResult_of_cong:
  assumes "executionPlan (store ex' oid) ! i = executionPlan (store ex oid) ! i"
    and "direction (store ex' oid) = direction (store ex oid)"
    and "ex_maxSlippage ex' = ex_maxSlippage ex"
  shows "txResult_of env ex' oid i = txResult_of env ex oid i"
  unfolding txResult_of_def executeBuyOrder_def executeSellOrder_def assms
  by (rule refl)

lemma failOrder_active:
  assumes "oid \<in> active ex"
  shows "active (failOrder ex oid msg) = active ex - {oid}"
    and "events (failOrder ex oid msg) = events ex @ [OrderFailedEvent oid msg]"
    and "ostatus (store (failOrder ex oid msg) oid) = OrderFailed"
    and "oerror (store (failOrder ex oid msg) oid) = Some msg"
    and "executionPlan (store (failOrder ex oid msg) oid) = executionPlan (store ex oid)"
    and "executedParts (store (failOrder ex oid msg) oid) = executedParts (store ex oid)"
  using assms
  by (simp_all add: failOrder_def activeOrders_get_def update_order_def Let_def)

lemma executeNextPart_fail:
  assumes "oid \<in> active ex"
    and "executedParts (store ex oid) < length (executionPlan (store ex oid))"
    and "status (executionPlan (store ex oid) ! executedParts (store ex oid)) = Pending"
    and "txResult_of env ex oid (executedParts (store ex oid)) = Inl msg"
  shows "executeNextPart env ex oid
           = failOrder (update_part ex oid (executedParts (store ex oid))
                          (\<lambda>part. part \<lparr> status := Failed, part_error := Some msg \<rparr>)) oid msg"
  using assms
  by (subst executeNextPart.simps) (simp add: executePart_fail Let_def)

lemma executeNextPart_ok:
  assumes "oid \<in> active ex"
    and "Suc (executedParts (store ex oid)) < length (executionPlan (store ex oid))"
    and "status (executionPlan (store ex oid) ! executedParts (store ex oid)) = Pending"
    and "txResult_of env ex oid (executedParts (store ex oid)) = Inr tx"
  shows "executeNextPart env ex oid
           = executeNextPart env
               (update_order (snd (executePart env ex oid (executedParts (store ex oid)))) oid
                  (\<lambda>ord. ord \<lparr> executedParts := executedParts ord + 1 \<rparr>)) oid"
  using assms executePart_ok [OF assms(1,4)]
  by (subst executeNextPart.simps) (simp add: Let_def update_order_def)


lemma update_part_fields:
  "active (update_part ex oid i f) = active ex"
  "ex_maxSlippage (update_part ex oid i f) = ex_maxSlippage ex"
  "events (update_part ex oid i f) = events ex"
  "executionPlan (store (update_part ex oid i f) oid)
     = (executionPlan (store ex oid)) [i := f (executionPlan (store ex oid) ! i)]"
  "executedParts (store (update_part ex oid i f) oid) = executedParts (store ex oid)"
  "direction (store (update_part ex oid i f) oid) = direction (store ex oid)"
  by (simp_all add: update_part_def update_order_def)

lemma executeNextPart_aborts:
  assumes "j - executedParts (store ex oid) = d0"
    and "oid \<in> active ex"
    and "executedParts (store ex oid) \<le> j"
    and "j < length (executionPlan (store ex oid))"
    and "\<forall>i. executedParts (store ex oid) \<le> i \<and> i \<le> j \<longrightarrow>
           status (executionPlan (store ex oid) ! i) = Pending"
    and "\<forall>i. executedParts (store ex oid) \<le> i \<and> i < j \<longrightarrow> \<not> isl (txResult_of env ex oid i)"
    and "txResult_of env ex oid j = Inl msg"
  shows "order_aborted_at ex (executeNextPart env ex oid) oid j msg"
  using assms
proof (induction d0 arbitrary: ex)
  case 0
  then have n: "executedParts (store ex oid) = j"
    by simp
  let ?ex1 = "update_part ex oid j (\<lambda>part. part \<lparr> status := Failed, part_error := Some msg \<rparr>)"
  have run: "executeNextPart env ex oid = failOrder ?ex1 oid msg"
    using "0.prems" n executeNextPart_fail [of oid ex env msg] by simp
  have act: "oid \<in> active ?ex1"
    using "0.prems"(2) by (simp add: update_part_fields)
  show ?case
    unfolding run order_aborted_at_def
    using "0.prems"(4) n
    by (auto simp add: failOrder_active [OF act] update_part_fields)
next
  case (Suc d0)
  let ?n = "executedParts (store ex oid)"
  let ?plan = "executionPlan (store ex oid)"
  from Suc.prems(1) have lt: "?n < j"
    by simp
  with Suc.prems(4) have more: "Suc ?n < length ?plan"
    by simp
  from Suc.prems(5) lt have pend: "status (?plan ! ?n) = Pending"
    by simp
  from Suc.prems(6) lt obtain tx where tx: "txResult_of env ex oid ?n = Inr tx"
    by (cases "txResult_of env ex oid ?n") auto
  note okf = executePart_ok [OF Suc.prems(2) tx]
  define ex2 where "ex2 = update_order (snd (executePart env ex oid ?n)) oid
                (\<lambda>ord. ord \<lparr> executedParts := executedParts ord + 1 \<rparr>)"
  have run: "executeNextPart env ex oid = executeNextPart env ex2 oid"
    unfolding ex2_def using Suc.prems(2) more pend tx by (rule executeNextPart_ok)
  have a2: "active ex2 = active ex"
    and s2: "ex_maxSlippage ex2 = ex_maxSlippage ex"
    and d2: "direction (store ex2 oid) = direction (store ex oid)"
    and n2: "executedParts (store ex2 oid) = Suc ?n"
    and p2: "executionPlan (store ex2 oid)
               = ?plan [?n := (?plan ! ?n) \<lparr> status := Executed,
                                            executedPrice := Some (tx_price tx),
                                            executedSize_p := Some (tx_size tx),
                                            gasUsed := Some (tx_gasUsed tx),
                                            txHash := Some (tx_txHash tx) \<rparr>]"
    using okf by (simp_all add: ex2_def update_order_def)
  have same: "executionPlan (store ex2 oid) ! i = ?plan ! i" if "i \<noteq> ?n" for i
    using that by (simp add: p2)
  have res: "txResult_of env ex2 oid i = txResult_of env ex oid i" if "i \<noteq> ?n" for i
    using same [OF that] d2 s2 by (rule txResult_of_cong)
  have ih: "order_aborted_at ex2 (executeNextPart env ex2 oid) oid j msg"
  proof (rule Suc.IH)
    show "j - executedParts (store ex2 oid) = d0"
      using Suc.prems(1) by (simp add: n2)
    show "oid \<in> active ex2"
      using Suc.prems(2) by (simp add: a2)
    show "executedParts (store ex2 oid) \<le> j"
      using lt by (simp add: n2)
    show "j < length (executionPlan (store ex2 oid))"
      using Suc.prems(4) by (simp add: p2)
    show "\<forall>i. executedParts (store ex2 oid) \<le> i \<and> i \<le> j \<longrightarrow>
            status (executionPlan (store ex2 oid) ! i) = Pending"
      using Suc.prems(5) by (simp add: n2 same)
    show "\<forall>i. executedParts (store ex2 oid) \<le> i \<and> i < j \<longrightarrow>
            \<not> isl (txResult_of env ex2 oid i)"
      using Suc.prems(6) by (simp add: n2 res)
    show "txResult_of env ex2 oid j = Inl msg"
      using Suc.prems(7) lt by (simp add: res)
  qed
  let ?fin = "executeNextPart env ex2 oid"
  let ?plan' = "executionPlan (store ?fin oid)"
  from ih have f1: "status (?plan' ! j) = Failed"
    and f2: "part_error (?plan' ! j) = Some msg"
    and f3: "ostatus (store ?fin oid) = OrderFailed"
    and f4: "oerror (store ?fin oid) = Some msg"
    and f5: "oid \<notin> active ?fin"
    and f6: "length ?plan' = length ?plan"
    and f7: "\<And>i. j < i \<Longrightarrow> i < length ?plan \<Longrightarrow> ?plan' ! i = executionPlan (store ex2 oid) ! i"
    and f8: "\<And>i. Suc ?n \<le> i \<Longrightarrow> i < j \<Longrightarrow> status (?plan' ! i) = Executed"
    and f9: "\<And>i. i < Suc ?n \<Longrightarrow> ?plan' ! i = executionPlan (store ex2 oid) ! i"
    by (simp_all add: order_aborted_at_def n2 p2)
  have g7: "?plan' ! i = ?plan ! i" if "j < i" "i < length ?plan" for i
    using f7 [OF that] that lt by (simp add: same)
  have g8: "status (?plan' ! i) = Executed" if "?n \<le> i" "i < j" for i
  proof (cases "i = ?n")
    case True
    then show ?thesis
      using f9 [of ?n] more by (simp add: p2)
  next
    case False
    then show ?thesis
      using f8 [of i] that by simp
  qed
  have g9: "?plan' ! i = ?plan ! i" if "i < ?n" for i
    using f9 [of i] that by (simp add: same)
  show ?case
    unfolding run order_aborted_at_def
    using f1 f2 f3 f4 f5 f6 g7 g8 g9 by simp
qed


text \<open>
  C10. Let the order \<open>oid\<close> be active, its parts from the current one to part \<open>j\<close> pending,
  the parts before \<open>j\<close> execute without error, and the execution of part \<open>j\<close> throw. Then
  \<open>scheduleExecution\<close> leaves part \<open>j\<close> failed and the order failed and out of the map of
  active orders, and every part after \<open>j\<close> is what it was before: none of them is executed.
\<close>

theorem part_failure_aborts_order:
  assumes "oid \<in> active ex"
    and "executedParts (store ex oid) \<le> j"
    and "j < length (executionPlan (store ex oid))"
    and "\<forall>i. executedParts (store ex oid) \<le> i \<and> i \<le> j \<longrightarrow>
           status (executionPlan (store ex oid) ! i) = Pending"
    and "\<forall>i. executedParts (store ex oid) \<le> i \<and> i < j \<longrightarrow> \<not> isl (txResult_of env ex oid i)"
    and "txResult_of env ex oid j = Inl msg"
  shows "status (executionPlan (store (scheduleExecution env ex oid) oid) ! j) = Failed
         \<and> ostatus (store (scheduleExecution env ex oid) oid) = OrderFailed
         \<and> oid \<notin> active (scheduleExecution env ex oid)
         \<and> length (executionPlan (store (scheduleExecution env ex oid) oid))
             = length (executionPlan (store ex oid))
         \<and> (\<forall>i. j < i \<and> i < length (executionPlan (store ex oid)) \<longrightarrow>
                executionPlan (store (scheduleExecution env ex oid) oid) ! i
                  = executionPlan (store ex oid) ! i)
         \<and> (\<forall>i. executedParts (store ex oid) \<le> i \<and> i < j \<longrightarrow>
                status (executionPlan (store (scheduleExecution env ex oid) oid) ! i) = Executed)"
proof -
  have "scheduleExecution env ex oid = executeNextPart env ex oid"
    using assms(1) by (simp add: scheduleExecution_def activeOrders_get_def)
  moreover have "order_aborted_at ex (executeNextPart env ex oid) oid j msg"
    using refl assms by (rule executeNextPart_aborts)
  ultimately show ?thesis
    by (simp add: order_aborted_at_def)
qed

lemma started_executor_fields:
  "active started_executor = {''twap_1''}"
  "ex_maxSlippage started_executor = fl 0.005"
  "direction (store started_executor ''twap_1'') = Buy"
  "executedParts (store started_executor ''twap_1'') = 0"
  by (simp_all add: started_executor_def default_executor_fields three_part_order_def
      order.defs active_order.defs)

lemma started_executor_plan:
  "executionPlan (store started_executor ''twap_1'')
     = calculateExecutionPlan default_executor (\<lambda>i. 1000) 0.75 300000 3
         (Some \<lparr> oq_inventoryAdjustment = Some 0, oq_reservationPrice = 3400 \<rparr>)"
  by (simp add: started_executor_def order.defs active_order.defs)

lemma started_executor_part:
  assumes "i < 3"
  shows "status (executionPlan (store started_executor ''twap_1'') ! i) = Pending"
    and "part_size (executionPlan (store started_executor ''twap_1'') ! i) = 1 / 4"
    and "part_targetPrice (executionPlan (store started_executor ''twap_1'') ! i) = 3400"
  using assms fl_small_bounds(1)
  by (simp_all add: started_executor_plan nth_calculateExecutionPlan plan_part_def
      default_executor_fields fl_quarter Let_def)

lemma executeTWAPOrder_started:
  "executeTWAPOrder slipping_backend (\<lambda>i. 1000) default_executor three_part_order
     = scheduleExecution slipping_backend started_executor ''twap_1''"
proof -
  have "calculateExecutionPlan default_executor (\<lambda>i. 1000) 0.75 300000 3
          (Some \<lparr> oq_inventoryAdjustment = Some 0, oq_reservationPrice = 3400 \<rparr>) \<noteq> []"
    using length_calculateExecutionPlan [of default_executor "\<lambda>i. 1000" "0.75" 300000 3
        "Some \<lparr> oq_inventoryAdjustment = Some 0, oq_reservationPrice = 3400 \<rparr>"]
    by auto
  then show ?thesis
    by (simp add: executeTWAPOrder_def started_executor_def three_part_order_def
        default_executor_fields Let_def)
qed

text \<open>
  The second of three parts breaches the slippage limit: the first part is executed, the
  second failed, the third still pending, the order failed and removed.
\<close>

theorem part_failure_aborts_order_witness:
  "''twap_1'' \<in> active started_executor
   \<and> executedParts (store started_executor ''twap_1'') \<le> 1
   \<and> 1 < length (executionPlan (store started_executor ''twap_1''))
   \<and> status (executionPlan (store started_executor ''twap_1'') ! 0) = Pending
   \<and> status (executionPlan (store started_executor ''twap_1'') ! 1) = Pending
   \<and> \<not> isl (txResult_of slipping_backend started_executor ''twap_1'' 0)
   \<and> txResult_of slipping_backend started_executor ''twap_1'' 1 = Inl ''Slippage too high''
   \<and> status (executionPlan (store (scheduleExecution slipping_backend started_executor ''twap_1'')
        ''twap_1'') ! 0) = Executed
   \<and> status (executionPlan (store (scheduleExecution slipping_backend started_executor ''twap_1'')
        ''twap_1'') ! 1) = Failed
   \<and> status (executionPlan (store (scheduleExecution slipping_backend started_executor ''twap_1'')
        ''twap_1'') ! 2) = Pending
   \<and> ostatus (store (scheduleExecution slipping_backend started_executor ''twap_1'') ''twap_1'')
       = OrderFailed
   \<and> ''twap_1'' \<notin> active (scheduleExecution slipping_backend started_executor ''twap_1'')"
proof -
  let ?ex = started_executor
  have h1: "''twap_1'' \<in> active ?ex"
    by (simp add: started_executor_fields)
  have h2: "executedParts (store ?ex ''twap_1'') \<le> 1"
    by (simp add: started_executor_fields)
  have len: "length (executionPlan (store ?ex ''twap_1'')) = 3"
    by (simp add: started_executor_plan length_calculateExecutionPlan)
  then have h3: "1 < length (executionPlan (store ?ex ''twap_1''))"
    by simp
  have p0: "status (executionPlan (store ?ex ''twap_1'') ! 0) = Pending"
    and p1: "status (executionPlan (store ?ex ''twap_1'') ! 1) = Pending"
    and p2: "status (executionPlan (store ?ex ''twap_1'') ! 2) = Pending"
    by (simp_all add: started_executor_part)
  have h4: "\<forall>i. executedParts (store ?ex ''twap_1'') \<le> i \<and> i \<le> 1 \<longrightarrow>
              status (executionPlan (store ?ex ''twap_1'') ! i) = Pending"
    by (simp add: started_executor_part)
  have t0: "\<not> isl (txResult_of slipping_backend ?ex ''twap_1'' 0)"
    using fl_small_bounds(3) by (simp add: txResult_of_def executeBuyOrder_def slipping_backend_def started_executor_part
        started_executor_fields Let_def)
  have h5: "\<forall>i. executedParts (store ?ex ''twap_1'') \<le> i \<and> i < 1 \<longrightarrow>
              \<not> isl (txResult_of slipping_backend ?ex ''twap_1'' i)"
    using t0 by simp
  have h6: "txResult_of slipping_backend ?ex ''twap_1'' 1 = Inl ''Slippage too high''"
    using fl_small_bounds(4) by (simp add: txResult_of_def executeBuyOrder_def slipping_backend_def started_executor_part
        started_executor_fields Let_def)
  note th = part_failure_aborts_order [OF h1 h2 h3 h4 h5 h6]
  from th have e0: "status (executionPlan (store (scheduleExecution slipping_backend ?ex ''twap_1'')
        ''twap_1'') ! 0) = Executed"
    by (simp add: started_executor_fields)
  from th len have e2: "executionPlan (store (scheduleExecution slipping_backend ?ex ''twap_1'')
        ''twap_1'') ! 2 = executionPlan (store ?ex ''twap_1'') ! 2"
    by simp
  show ?thesis
    using h1 h2 h3 p0 p1 t0 h6 th e0 e2 p2 by simp
qed


end
